theory Spec2Isabelle
  imports Complex_Main
begin

section \<open>Values loaded from the input file\<close>

text \<open>
  \<open>parse_input_file\<close> stores in \<open>self.data\<close> whatever \<open>yaml.safe_load\<close> returns: a tree of
  Python objects. The embedding covers \<open>None\<close>, booleans, integers, strings, lists and
  dicts (items in insertion order); floats, timestamps, binary data and sets are left out.
  A Python \<open>str\<close> is held as its UTF-8 bytes.
\<close>

datatype yaml =
    YNull
  | YBool bool
  | YInt int
  | YStr string
  | YList "yaml list"
  | YMap "(yaml \<times> yaml) list"

datatype error =
    FileNotFoundError string
  | TypeError
  | KeyError string
  | AttributeError string
  | LibraryError string

text \<open>Sequencing of Python expressions that may raise: the first exception wins.\<close>

definition sbind :: "error + 'a \<Rightarrow> ('a \<Rightarrow> error + 'b) \<Rightarrow> error + 'b" where
  "sbind r f = (case r of Inl e \<Rightarrow> Inl e | Inr x \<Rightarrow> f x)"

subsection \<open>The Python operators the renderers apply to loaded values\<close>

fun starts_with :: "string \<Rightarrow> string \<Rightarrow> bool" where
  "starts_with [] s = True"
| "starts_with (c # cs) [] = False"
| "starts_with (c # cs) (d # ds) = (c = d \<and> starts_with cs ds)"

text \<open>\<open>needle in s\<close> for two strings: the substring test.\<close>

fun contains :: "string \<Rightarrow> string \<Rightarrow> bool" where
  "contains needle [] = (needle = [])"
| "contains needle (c # cs) = (starts_with needle (c # cs) \<or> contains needle cs)"

text \<open>
  \<open>key in v\<close> with a string literal \<open>key\<close>: key membership for a dict, element membership
  for a list, the substring test for a string, \<open>TypeError\<close> for anything else.
\<close>

fun py_in :: "string \<Rightarrow> yaml \<Rightarrow> error + bool" where
  "py_in k (YMap kvs) = Inr (YStr k \<in> set (map fst kvs))"
| "py_in k (YList xs) = Inr (YStr k \<in> set xs)"
| "py_in k (YStr s) = Inr (contains k s)"
| "py_in k YNull = Inl TypeError"
| "py_in k (YBool b) = Inl TypeError"
| "py_in k (YInt i) = Inl TypeError"

text \<open>
  \<open>v[key]\<close> with a string literal \<open>key\<close>: the lookup in a dict (\<open>KeyError\<close> when the key
  is missing), \<open>TypeError\<close> for a list or a string (their indices are integers) and
  for anything that is not subscriptable.
\<close>

fun py_getitem :: "yaml \<Rightarrow> string \<Rightarrow> error + yaml" where
  "py_getitem (YMap kvs) k =
     (case map_of kvs (YStr k) of None \<Rightarrow> Inl (KeyError k) | Some v \<Rightarrow> Inr v)"
| "py_getitem (YList xs) k = Inl TypeError"
| "py_getitem (YStr s) k = Inl TypeError"
| "py_getitem YNull k = Inl TypeError"
| "py_getitem (YBool b) k = Inl TypeError"
| "py_getitem (YInt i) k = Inl TypeError"

text \<open>The truth value \<open>not v\<close> negates.\<close>

fun py_truthy :: "yaml \<Rightarrow> bool" where
  "py_truthy YNull = False"
| "py_truthy (YBool b) = b"
| "py_truthy (YInt i) = (i \<noteq> 0)"
| "py_truthy (YStr s) = (s \<noteq> [])"
| "py_truthy (YList xs) = (xs \<noteq> [])"
| "py_truthy (YMap kvs) = (kvs \<noteq> [])"

text \<open>
  Iterating a string yields its characters. A character is one code point: in UTF-8 a
  lead byte and the continuation bytes (\<open>10xxxxxx\<close>) after it.
\<close>

definition is_continuation :: "char \<Rightarrow> bool" where
  "is_continuation c = (digit7 c \<and> \<not> digit6 c)"

function utf8_chars :: "string \<Rightarrow> string list" where
  "utf8_chars [] = []"
| "utf8_chars (c # cs) =
     (c # takeWhile is_continuation cs) # utf8_chars (dropWhile is_continuation cs)"
  by pat_completeness auto
termination
  by (relation "measure length") (auto simp: length_dropWhile_le le_imp_less_Suc)

text \<open>
  \<open>for x in v\<close>: the elements of a list, the characters of a string, the keys of a dict;
  \<open>TypeError\<close> for a value that is not iterable.
\<close>

fun py_iter :: "yaml \<Rightarrow> error + yaml list" where
  "py_iter (YList xs) = Inr xs"
| "py_iter (YStr s) = Inr (map YStr (utf8_chars s))"
| "py_iter (YMap kvs) = Inr (map fst kvs)"
| "py_iter YNull = Inl TypeError"
| "py_iter (YBool b) = Inl TypeError"
| "py_iter (YInt i) = Inl TypeError"

text \<open>\<open>sep.join(items)\<close>: every item has to be a string.\<close>

fun py_join :: "string \<Rightarrow> yaml list \<Rightarrow> error + string" where
  "py_join sep [] = Inr []"
| "py_join sep [YStr s] = Inr s"
| "py_join sep (YStr s # x # xs) = sbind (py_join sep (x # xs)) (\<lambda>r. Inr (s @ sep @ r))"
| "py_join sep (v # xs) = Inl TypeError"

section \<open>Python floats\<close>

text \<open>
  A Python float is an IEEE 754 double. A finite double is held as an integer mantissa
  \<open>m\<close> and a binary exponent \<open>e\<close>; its value is \<open>m * 2^e\<close>. The result of an
  operation is the exact result rounded to 53 significant bits, to the nearest double,
  a tie going to the even mantissa. Exponents are not bounded: overflow, subnormal
  numbers, infinities and NaN are left out.
\<close>

datatype double = Double (mantissa: int) (exponent: int)

definition value_of :: "double \<Rightarrow> real" where
  "value_of d = of_int (mantissa d) * 2 powi exponent d"

text \<open>The number of bits of a positive integer.\<close>

function bit_length :: "int \<Rightarrow> nat" where
  "bit_length k = (if k \<le> 0 then 0 else Suc (bit_length (k div 2)))"
  by pat_completeness auto
termination
  by (relation "measure nat") auto

declare bit_length.simps [simp del]

text \<open>\<open>m * 2^e\<close> rounded to a double.\<close>

definition round_to_double :: "int \<Rightarrow> int \<Rightarrow> double" where
  "round_to_double m e =
     (let n = bit_length \<bar>m\<bar> in
      if n \<le> 53 then Double m e
      else
        (let s = n - 53;
             q = \<bar>m\<bar> div 2 ^ s;
             r = \<bar>m\<bar> mod 2 ^ s;
             h = 2 ^ (s - 1);
             q' = (if h < r \<or> (r = h \<and> odd q) then q + 1 else q)
         in Double (sgn m * q') (e + int s)))"

text \<open>The mantissa of a double at a smaller exponent \<open>e\<close>.\<close>

definition aligned :: "double \<Rightarrow> int \<Rightarrow> int" where
  "aligned d e = mantissa d * 2 ^ nat (exponent d - e)"

text \<open>\<open>a - b\<close> on floats.\<close>

definition fsub :: "double \<Rightarrow> double \<Rightarrow> double" where
  "fsub a b =
     (let e = min (exponent a) (exponent b)
      in round_to_double (aligned a e - aligned b e) e)"

text \<open>A number given to the canvas: the source passes the integer \<open>0\<close> and floats.\<close>

datatype number = PyInt int | PyFloat double

section \<open>Renderable blocks\<close>

datatype color = black | darkblue | grey

datatype alignment = TA_LEFT | TA_CENTER | TA_RIGHT

definition inch :: real where
  "inch = 72"

text \<open>
  The attributes of a \<open>ParagraphStyle\<close> that \<open>_setup_custom_styles\<close> sets; a style
  made with \<open>parent=p\<close> has the attributes of \<open>p\<close> wherever it sets none.
\<close>

record ParagraphStyle =
  name :: string
  fontName :: string
  fontSize :: real
  textColor :: color
  spaceBefore :: real
  spaceAfter :: real
  alignment :: alignment
  leftIndent :: real
  firstLineIndent :: real

text \<open>
  The text argument of a \<open>Paragraph\<close>: a value passed as it is, or an f-string
  \<open>f"{pre}{v}{post}"\<close> around a loaded value \<open>v\<close>.
\<close>

datatype ptext = Raw yaml | FString string yaml string

text \<open>
  The string a text argument stands for when its value is a string; formatting any other
  value goes through Python's \<open>str()\<close>, which is not part of the embedding.
\<close>

fun text_of :: "ptext \<Rightarrow> string option" where
  "text_of (Raw (YStr s)) = Some s"
| "text_of (FString pre (YStr s) post) = Some (pre @ s @ post)"
| "text_of t = None"

text \<open>The entries of the style dicts given to a \<open>TwoColumnLine\<close>.\<close>

datatype style_value = SName string | SSize real | SColor color

type_synonym style_dict = "(string \<times> style_value) list"

text \<open>
  \<open>__init__\<close> stores the four arguments; \<open>width\<close> is an attribute only after \<open>wrap\<close>
  has run.
\<close>

record TwoColumnLine =
  left_text :: yaml
  right_text :: yaml
  left_style :: style_dict
  right_style :: style_dict
  width :: "double option"

definition TwoColumnLine_init ::
  "yaml \<Rightarrow> yaml \<Rightarrow> style_dict \<Rightarrow> style_dict \<Rightarrow> TwoColumnLine" where
  "TwoColumnLine_init l r ls rs =
     \<lparr>left_text = l, right_text = r, left_style = ls, right_style = rs, width = None\<rparr>"

datatype block =
    Paragraph ptext ParagraphStyle
  | Spacer real real
  | HRFlowable string real color
  | TwoColumn TwoColumnLine

subsection \<open>\<open>TwoColumnLine.wrap\<close> and \<open>TwoColumnLine.draw\<close>\<close>

text \<open>The calls \<open>draw\<close> makes on the canvas, in order.\<close>

datatype canvas_call =
    setFont style_value style_value
  | setFillColor style_value
  | drawString number number yaml

definition wrap ::
  "TwoColumnLine \<Rightarrow> double \<Rightarrow> double \<Rightarrow> TwoColumnLine \<times> (double \<times> int)" where
  "wrap self availWidth availHeight = (self\<lparr>width := Some availWidth\<rparr>, (availWidth, 14))"

definition style_getitem :: "style_dict \<Rightarrow> string \<Rightarrow> error + style_value" where
  "style_getitem d k = (case map_of d k of None \<Rightarrow> Inl (KeyError k) | Some v \<Rightarrow> Inr v)"

definition style_get :: "style_dict \<Rightarrow> string \<Rightarrow> style_value \<Rightarrow> style_value" where
  "style_get d k dflt = (case map_of d k of None \<Rightarrow> dflt | Some v \<Rightarrow> v)"

text \<open>
  \<open>draw\<close>, with the canvas's \<open>stringWidth\<close> as the parameter \<open>sw\<close>. The result is the list
  of canvas calls made, or the exception raised; with it come the calls made before
  the exception. The available width and the measured width are floats, and
  \<open>self.width - right_text_width\<close> is the subtraction of floats.
\<close>

definition draw ::
  "(yaml \<Rightarrow> style_value \<Rightarrow> style_value \<Rightarrow> double) \<Rightarrow> TwoColumnLine \<Rightarrow>
     (error + unit) \<times> canvas_call list" where
  "draw sw self =
     (case style_getitem (left_style self) ''fontName'' of Inl e \<Rightarrow> (Inl e, [])
      | Inr lf \<Rightarrow>
     (case style_getitem (left_style self) ''fontSize'' of Inl e \<Rightarrow> (Inl e, [])
      | Inr lz \<Rightarrow>
     (let c1 = [setFont lf lz,
                setFillColor (style_get (left_style self) ''textColor'' (SColor black)),
                drawString (PyInt 0) (PyInt 0) (left_text self)]
      in
     (case style_getitem (right_style self) ''fontName'' of Inl e \<Rightarrow> (Inl e, c1)
      | Inr rf \<Rightarrow>
     (case style_getitem (right_style self) ''fontSize'' of Inl e \<Rightarrow> (Inl e, c1)
      | Inr rz \<Rightarrow>
     (let right_text_width = sw (right_text self) rf rz
      in
     (case width self of None \<Rightarrow> (Inl (AttributeError ''width''), c1)
      | Some w \<Rightarrow>
     (let right_x = fsub w right_text_width
      in (Inr (),
          c1 @ [setFont rf rz,
                setFillColor (style_get (right_style self) ''textColor'' (SColor black)),
                drawString (PyFloat right_x) (PyInt 0) (right_text self)])))))))))"

section \<open>The generator object and its styles\<close>

text \<open>
  The styles \<open>getSampleStyleSheet()\<close> returns are the library's; the three that serve as
  parents come in as a parameter, and so does \<open>pdfmetrics.stringWidth\<close>.
\<close>

record sample_styles =
  Normal :: ParagraphStyle
  Heading1 :: ParagraphStyle
  Heading2 :: ParagraphStyle

text \<open>The styles \<open>_setup_custom_styles\<close> adds to \<open>self.styles\<close>, by name.\<close>

record stylesheet =
  Name :: ParagraphStyle
  Contact :: ParagraphStyle
  SectionHeader :: ParagraphStyle
  JobTitle :: ParagraphStyle
  Company :: ParagraphStyle
  DateLocation :: ParagraphStyle
  Description :: ParagraphStyle
  BulletPoint :: ParagraphStyle

definition setup_custom_styles ::
  "(string \<Rightarrow> string \<Rightarrow> real \<Rightarrow> real) \<Rightarrow> sample_styles \<Rightarrow> stylesheet" where
  "setup_custom_styles stringWidth sample =
     (let dash_space_width = stringWidth ''- '' ''Helvetica'' 11 in
      \<lparr>Name = (Heading1 sample)\<lparr>name := ''Name'', fontSize := 20, textColor := darkblue,
                 spaceAfter := 6, alignment := TA_CENTER, fontName := ''Helvetica-Bold''\<rparr>,
       Contact = (Normal sample)\<lparr>name := ''Contact'', fontSize := 11, textColor := black,
                 spaceAfter := 6, alignment := TA_CENTER, fontName := ''Helvetica''\<rparr>,
       SectionHeader = (Heading2 sample)\<lparr>name := ''SectionHeader'', fontSize := 14,
                 textColor := black, spaceBefore := 8, spaceAfter := 1,
                 fontName := ''Helvetica-Bold''\<rparr>,
       JobTitle = (Normal sample)\<lparr>name := ''JobTitle'', fontSize := 11, textColor := black,
                 fontName := ''Helvetica-Bold'', spaceAfter := 2\<rparr>,
       Company = (Normal sample)\<lparr>name := ''Company'', fontSize := 11, textColor := black,
                 fontName := ''Helvetica-Bold'', spaceAfter := 2\<rparr>,
       DateLocation = (Normal sample)\<lparr>name := ''DateLocation'', fontSize := 11,
                 textColor := grey, fontName := ''Helvetica-Oblique'', spaceAfter := 4\<rparr>,
       Description = (Normal sample)\<lparr>name := ''Description'', fontSize := 11,
                 textColor := black, fontName := ''Helvetica'', leftIndent := 0,
                 spaceAfter := 2\<rparr>,
       BulletPoint = (Normal sample)\<lparr>name := ''BulletPoint'', fontSize := 11,
                 textColor := black, fontName := ''Helvetica'',
                 leftIndent := dash_space_width, firstLineIndent := - dash_space_width,
                 spaceAfter := 2\<rparr>\<rparr>)"

record generator =
  input_file :: string
  output_file :: string
  data :: yaml
  styles :: stylesheet

definition ResumeGenerator_init ::
  "(string \<Rightarrow> string \<Rightarrow> real \<Rightarrow> real) \<Rightarrow> sample_styles \<Rightarrow> string \<Rightarrow> string \<Rightarrow> generator" where
  "ResumeGenerator_init stringWidth sample inp outp =
     \<lparr>input_file = inp, output_file = outp, data = YMap [],
      styles = setup_custom_styles stringWidth sample\<rparr>"

section \<open>Methods that append to the story\<close>

text \<open>
  A section renderer runs on the generator object and the list \<open>story\<close> it is given, may
  change either, and returns or raises. Its embedding takes both and returns them as they
  are when it returns or raises.
\<close>

type_synonym 'a action = "generator \<times> block list \<Rightarrow> (error + 'a) \<times> generator \<times> block list"

definition ret :: "'a \<Rightarrow> 'a action" where
  "ret x = (\<lambda>s. (Inr x, s))"

definition bnd :: "'a action \<Rightarrow> ('a \<Rightarrow> 'b action) \<Rightarrow> 'b action" where
  "bnd m f = (\<lambda>s. case m s of (Inl e, s') \<Rightarrow> (Inl e, s') | (Inr x, s') \<Rightarrow> f x s')"

definition seq :: "unit action \<Rightarrow> 'b action \<Rightarrow> 'b action" where
  "seq m n = bnd m (\<lambda>_. n)"

text \<open>An expression: it reads, and may raise.\<close>

definition expr :: "error + 'a \<Rightarrow> 'a action" where
  "expr r = (\<lambda>s. (r, s))"

definition self_data :: "yaml action" where
  "self_data = (\<lambda>s. (Inr (data (fst s)), s))"

definition self_style :: "(stylesheet \<Rightarrow> ParagraphStyle) \<Rightarrow> ParagraphStyle action" where
  "self_style f = (\<lambda>s. (Inr (f (styles (fst s))), s))"

text \<open>\<open>story.append(b)\<close>\<close>

definition append :: "block \<Rightarrow> unit action" where
  "append b = (\<lambda>s. (Inr (), (fst s, snd s @ [b])))"

fun for_each :: "('a \<Rightarrow> unit action) \<Rightarrow> 'a list \<Rightarrow> unit action" where
  "for_each body [] = ret ()"
| "for_each body (x # xs) = seq (body x) (for_each body xs)"

text \<open>\<open>key in self.data\<close> and \<open>self.data[key]\<close>\<close>

definition self_has :: "string \<Rightarrow> bool action" where
  "self_has key = bnd self_data (\<lambda>d. expr (py_in key d))"

definition self_item :: "string \<Rightarrow> yaml action" where
  "self_item key = bnd self_data (\<lambda>d. expr (py_getitem d key))"

text \<open>\<open>key not in self.data or not self.data[key]\<close>, the guard of five renderers.\<close>

definition absent_or_empty :: "string \<Rightarrow> bool action" where
  "absent_or_empty key =
     bnd (self_has key) (\<lambda>present.
       if \<not> present then ret True
       else bnd (self_item key) (\<lambda>x. ret (\<not> py_truthy x)))"

text \<open>\<open>a in v and b in v\<close>\<close>

definition both_in :: "string \<Rightarrow> string \<Rightarrow> yaml \<Rightarrow> error + bool" where
  "both_in a b v = sbind (py_in a v) (\<lambda>x. if x then py_in b v else Inr False)"

definition add_section_separator :: "unit action" where
  "add_section_separator =
     seq (append (HRFlowable ''100%'' 0.5 black)) (append (Spacer 1 (0.08 * inch)))"

definition section_header :: "string \<Rightarrow> unit action" where
  "section_header title =
     bnd (self_style SectionHeader) (\<lambda>st. append (Paragraph (Raw (YStr title)) st))"

subsection \<open>\<open>create_personal_section\<close>\<close>

text \<open>The glyph U+2022 in UTF-8.\<close>

definition bullet_glyph :: string where
  "bullet_glyph = [CHR 0xE2, CHR 0x80, CHR 0xA2]"

text \<open>\<open>if key in personal: contact_info.append(personal[key])\<close>\<close>

definition add_contact :: "yaml \<Rightarrow> string \<Rightarrow> yaml list \<Rightarrow> error + yaml list" where
  "add_contact personal key contact_info =
     sbind (py_in key personal) (\<lambda>present.
       if present then sbind (py_getitem personal key) (\<lambda>v. Inr (contact_info @ [v]))
       else Inr contact_info)"

definition collect_contact_info :: "yaml \<Rightarrow> error + yaml list" where
  "collect_contact_info personal =
     sbind (add_contact personal ''email'' []) (\<lambda>c1.
     sbind (add_contact personal ''phone'' c1) (\<lambda>c2.
     sbind (add_contact personal ''location'' c2) (\<lambda>c3.
     sbind (add_contact personal ''linkedin'' c3) (\<lambda>c4.
     sbind (add_contact personal ''github'' c4) (\<lambda>c5.
     add_contact personal ''website'' c5)))))"

definition create_personal_section :: "unit action" where
  "create_personal_section =
     bnd (self_has ''personal'') (\<lambda>present.
     if \<not> present then ret ()
     else
       bnd (self_item ''personal'') (\<lambda>personal.
       seq (bnd (expr (py_in ''name'' personal)) (\<lambda>has_name.
              if has_name then
                bnd (expr (py_getitem personal ''name'')) (\<lambda>v.
                bnd (self_style Name) (\<lambda>st. append (Paragraph (Raw v) st)))
              else ret ()))
      (bnd (expr (collect_contact_info personal)) (\<lambda>contact_info.
       seq (if contact_info \<noteq> [] then
              bnd (expr (py_join ('' '' @ bullet_glyph @ '' '') contact_info)) (\<lambda>contact_text.
              bnd (self_style Contact) (\<lambda>st. append (Paragraph (Raw (YStr contact_text)) st)))
            else ret ())
      (append (Spacer 1 (0.03 * inch)))))))"

subsection \<open>\<open>create_experience_section\<close> and \<open>create_education_section\<close>\<close>

text \<open>
  \<open>if a in entry and b in entry:\<close> append the line of \<open>entry[a]\<close> and \<open>entry[b]\<close> in the
  two styles, then a spacer of height \<open>gap\<close>.
\<close>

definition paired_line ::
  "yaml \<Rightarrow> string \<Rightarrow> string \<Rightarrow> style_dict \<Rightarrow> style_dict \<Rightarrow> real \<Rightarrow> unit action" where
  "paired_line entry a b ls rs gap =
     bnd (expr (both_in a b entry)) (\<lambda>both.
       if both then
         bnd (expr (py_getitem entry a)) (\<lambda>l.
         bnd (expr (py_getitem entry b)) (\<lambda>r.
         seq (append (TwoColumn (TwoColumnLine_init l r ls rs)))
             (append (Spacer 1 gap))))
       else ret ())"

definition bold12 :: style_dict where
  "bold12 = [(''fontName'', SName ''Helvetica-Bold''), (''fontSize'', SSize 12),
             (''textColor'', SColor black)]"

definition plain11 :: style_dict where
  "plain11 = [(''fontName'', SName ''Helvetica''), (''fontSize'', SSize 11),
              (''textColor'', SColor black)]"

definition oblique11 :: "color \<Rightarrow> style_dict" where
  "oblique11 c = [(''fontName'', SName ''Helvetica-Oblique''), (''fontSize'', SSize 11),
                  (''textColor'', SColor c)]"

definition bullet_line :: "yaml \<Rightarrow> unit action" where
  "bullet_line responsibility =
     bnd (self_style BulletPoint) (\<lambda>st. append (Paragraph (FString ''- '' responsibility []) st))"

definition experience_entry :: "yaml \<Rightarrow> unit action" where
  "experience_entry exp' =
     seq (paired_line exp' ''company'' ''location'' bold12 plain11 (0.02 * inch))
    (seq (paired_line exp' ''title'' ''duration'' (oblique11 black) (oblique11 grey)
            (0.04 * inch))
    (seq (bnd (expr (py_in ''responsibilities'' exp')) (\<lambda>present.
            if present then
              bnd (expr (py_getitem exp' ''responsibilities'')) (\<lambda>rs.
              bnd (expr (py_iter rs)) (for_each bullet_line))
            else ret ()))
         (append (Spacer 1 (0.05 * inch)))))"

definition create_experience_section :: "unit action" where
  "create_experience_section =
     bnd (absent_or_empty ''experience'') (\<lambda>skip.
     if skip then ret ()
     else
       seq (section_header ''PROFESSIONAL EXPERIENCE'')
      (seq add_section_separator
      (bnd (self_item ''experience'') (\<lambda>entries.
       bnd (expr (py_iter entries)) (for_each experience_entry)))))"

definition education_entry :: "yaml \<Rightarrow> unit action" where
  "education_entry edu =
     seq (paired_line edu ''institution'' ''duration'' bold12 plain11 (0.02 * inch))
         (paired_line edu ''degree'' ''location'' (oblique11 black) (oblique11 grey)
            (0.05 * inch))"

definition create_education_section :: "unit action" where
  "create_education_section =
     bnd (absent_or_empty ''education'') (\<lambda>skip.
     if skip then ret ()
     else
       seq (section_header ''EDUCATION'')
      (seq add_section_separator
      (bnd (self_item ''education'') (\<lambda>entries.
       bnd (expr (py_iter entries)) (for_each education_entry)))))"

subsection \<open>\<open>create_skills_section\<close> and \<open>create_certifications_section\<close>\<close>

definition create_skills_section :: "unit action" where
  "create_skills_section =
     bnd (absent_or_empty ''skills'') (\<lambda>skip.
     if skip then ret ()
     else
       seq (section_header ''TECHNICAL SKILLS'')
      (seq add_section_separator
      (bnd (self_item ''skills'') (\<lambda>skills.
       bnd (expr (sbind (py_iter skills) (py_join '', ''))) (\<lambda>skills_text.
       seq (bnd (self_style Description) (\<lambda>st. append (Paragraph (Raw (YStr skills_text)) st)))
           (append (Spacer 1 (0.1 * inch))))))))"

definition cert_line :: "yaml \<Rightarrow> unit action" where
  "cert_line cert =
     bnd (self_style Description) (\<lambda>st.
       append (Paragraph (FString (bullet_glyph @ '' '') cert []) st))"

definition create_certifications_section :: "unit action" where
  "create_certifications_section =
     bnd (absent_or_empty ''certifications'') (\<lambda>skip.
     if skip then ret ()
     else
       seq (section_header ''CERTIFICATIONS'')
      (seq add_section_separator
      (bnd (self_item ''certifications'') (\<lambda>certs.
       bnd (expr (py_iter certs)) (for_each cert_line)))))"

subsection \<open>\<open>create_projects_section\<close>\<close>

text \<open>
  \<open>if key in project:\<close> append the paragraph \<open>f"{pre}{project[key]}{post}"\<close> in the style
  \<open>f\<close>; the description is passed without an f-string.
\<close>

definition project_field ::
  "yaml \<Rightarrow> string \<Rightarrow> (yaml \<Rightarrow> ptext) \<Rightarrow> (stylesheet \<Rightarrow> ParagraphStyle) \<Rightarrow> unit action" where
  "project_field project key mk f =
     bnd (expr (py_in key project)) (\<lambda>present.
       if present then
         bnd (expr (py_getitem project key)) (\<lambda>v.
         bnd (self_style f) (\<lambda>st. append (Paragraph (mk v) st)))
       else ret ())"

definition project_entry :: "yaml \<Rightarrow> unit action" where
  "project_entry project =
     seq (project_field project ''name'' (\<lambda>v. FString ''<b>'' v ''</b>'') JobTitle)
    (seq (project_field project ''description'' Raw Description)
    (seq (project_field project ''technologies'' (\<lambda>v. FString ''<b>Technologies:</b> '' v [])
            Description)
    (seq (project_field project ''link'' (\<lambda>v. FString ''<b>Link:</b> '' v []) Description)
         (append (Spacer 1 (0.1 * inch))))))"

definition create_projects_section :: "unit action" where
  "create_projects_section =
     bnd (absent_or_empty ''projects'') (\<lambda>skip.
     if skip then ret ()
     else
       seq (section_header ''PROJECTS'')
      (bnd (self_item ''projects'') (\<lambda>projects.
       bnd (expr (py_iter projects)) (for_each project_entry))))"

section \<open>\<open>generate_pdf\<close> and \<open>main\<close>\<close>

text \<open>The six renderers in the order \<open>generate_pdf\<close> calls them.\<close>

definition build_story :: "unit action" where
  "build_story =
     seq create_personal_section
    (seq create_experience_section
    (seq create_education_section
    (seq create_skills_section
    (seq create_certifications_section
         create_projects_section))))"

datatype pagesize = letter

record doc_template =
  filename :: string
  page :: pagesize
  rightMargin :: real
  leftMargin :: real
  topMargin :: real
  bottomMargin :: real

text \<open>
  What a run does that can be seen from outside: lines printed, and the story handed to
  \<open>doc.build\<close>, which writes the output file. \<open>PrintExc pre e\<close> is \<open>print(f"{pre}{e}")\<close> for
  an exception \<open>e\<close>; the text of an exception made with one message is that message.
\<close>

datatype event =
    Print string
  | PrintExc string error
  | Build doc_template "block list"

text \<open>
  The file system, the YAML loader and the rendering engine are not part of the program:
  \<open>path_exists\<close> is \<open>Path(p).exists()\<close>, \<open>safe_load\<close> is opening and parsing the file,
  \<open>doc_build\<close> is \<open>doc.build(story)\<close> with the exception it raises, if any.
\<close>

record env =
  path_exists :: "string \<Rightarrow> bool"
  safe_load :: "string \<Rightarrow> error + yaml"
  doc_build :: "doc_template \<Rightarrow> block list \<Rightarrow> error option"
  stringWidth :: "string \<Rightarrow> string \<Rightarrow> real \<Rightarrow> real"
  getSampleStyleSheet :: sample_styles

definition parse_input_file :: "env \<Rightarrow> generator \<Rightarrow> error + generator" where
  "parse_input_file e self =
     (if \<not> path_exists e (input_file self)
      then Inl (FileNotFoundError (''Input file '' @ input_file self @ '' not found!''))
      else sbind (safe_load e (input_file self)) (\<lambda>d. Inr (self\<lparr>data := d\<rparr>)))"

definition generate_pdf :: "env \<Rightarrow> generator \<Rightarrow> (error + generator) \<times> event list" where
  "generate_pdf e self =
     (let doc = \<lparr>filename = output_file self, page = letter, rightMargin = 0.3 * inch,
                 leftMargin = 0.3 * inch, topMargin = 0.2 * inch,
                 bottomMargin = 0.2 * inch\<rparr>
      in case build_story (self, []) of
           (Inl x, s) \<Rightarrow> (Inl x, [])
         | (Inr u, (self', story)) \<Rightarrow>
             (case doc_build e doc story of
                Some x \<Rightarrow> (Inl x, [Build doc story])
              | None \<Rightarrow>
                  (Inr self',
                   [Build doc story,
                    Print (''Resume generated successfully: '' @ output_file self')])))"

text \<open>
  \<open>main\<close>: the value it returns, which \<open>sys.exit\<close> makes the exit code, and what the run
  did. An exception is handled by the first \<open>except\<close> clause whose class it has.
\<close>

definition handler :: "error \<Rightarrow> int \<times> event list" where
  "handler x =
     (case x of
        FileNotFoundError m \<Rightarrow>
          (1, [PrintExc ''Error: '' x,
               Print ''Please ensure resume_data.yaml exists with your resume data''])
      | _ \<Rightarrow> (1, [PrintExc ''Error generating resume: '' x]))"

definition main :: "env \<Rightarrow> int \<times> event list" where
  "main e =
     (let generator = ResumeGenerator_init (stringWidth e) (getSampleStyleSheet e)
                        ''resume_data.yaml'' ''Generated_Resume.pdf'';
          t0 = [Print ''Parsing input data...'']
      in case parse_input_file e generator of
           Inl x \<Rightarrow> (fst (handler x), t0 @ snd (handler x))
         | Inr g1 \<Rightarrow>
             (let t1 = t0 @ [Print ''Generating PDF...'']
              in case generate_pdf e g1 of
                   (Inl x, t) \<Rightarrow> (fst (handler x), t1 @ t @ snd (handler x))
                 | (Inr g2, t) \<Rightarrow>
                     (0, t1 @ t @ [Print ''Resume generation completed successfully!''])))"

section \<open>Properties of the renderers\<close>

text \<open>
  \<open>emits P m\<close>: whatever the generator and the story, \<open>m\<close> leaves the generator as it
  is and the story it was given in place, and every block it appends satisfies \<open>P\<close>
  (which may refer to the generator's styles), also when \<open>m\<close> raises.
\<close>

definition emits :: "(stylesheet \<Rightarrow> block \<Rightarrow> bool) \<Rightarrow> 'a action \<Rightarrow> bool" where
  "emits P m =
     (\<forall>g story. \<exists>r bs. m (g, story) = (r, g, story @ bs) \<and> list_all (P (styles g)) bs)"

definition any_block :: "stylesheet \<Rightarrow> block \<Rightarrow> bool" where
  "any_block st b = True"

text \<open>The guard of a section lets it through: \<open>key in d\<close> holds and \<open>d[key]\<close> is true.\<close>

definition nonempty_key :: "string \<Rightarrow> yaml \<Rightarrow> bool" where
  "nonempty_key key d =
     (case py_in key d of
        Inr True \<Rightarrow> (case py_getitem d key of Inr v \<Rightarrow> py_truthy v | Inl e \<Rightarrow> False)
      | _ \<Rightarrow> False)"

text \<open>The key is absent from \<open>d\<close>, or \<open>d[key]\<close> is false (\<open>None\<close>, empty, zero).\<close>

definition absent_or_empty_key :: "string \<Rightarrow> yaml \<Rightarrow> bool" where
  "absent_or_empty_key key d =
     (case py_in key d of
        Inr True \<Rightarrow> (case py_getitem d key of Inr v \<Rightarrow> \<not> py_truthy v | Inl e \<Rightarrow> False)
      | Inr False \<Rightarrow> True
      | Inl e \<Rightarrow> False)"

text \<open>Kinds of blocks.\<close>

fun is_HR :: "block \<Rightarrow> bool" where
  "is_HR (HRFlowable w t c) = True"
| "is_HR b = False"


text \<open>What the loop over the projects may append: paragraphs and the spacer closing an entry.\<close>

fun project_block :: "stylesheet \<Rightarrow> block \<Rightarrow> bool" where
  "project_block st (Paragraph t s) = True"
| "project_block st (Spacer w h) = (h = 0.1 * inch)"
| "project_block st b = False"



text \<open>The two-column line of the fields \<open>a\<close> and \<open>b\<close> of a mapping and the spacer after it, when both keys are there; nothing otherwise.\<close>

definition line_if ::
  "(yaml \<times> yaml) list \<Rightarrow> string \<Rightarrow> string \<Rightarrow> style_dict \<Rightarrow> style_dict \<Rightarrow> real \<Rightarrow> block list" where
  "line_if kvs a b ls rs gap =
     (case (map_of kvs (YStr a), map_of kvs (YStr b)) of
        (Some l, Some r) \<Rightarrow> [TwoColumn (TwoColumnLine_init l r ls rs), Spacer 1 gap]
      | _ \<Rightarrow> [])"

text \<open>A generator and a record for the closed instances below.\<close>

definition example_style :: ParagraphStyle where
  "example_style =
     \<lparr>name = ''Normal'', fontName = ''Helvetica'', fontSize = 10, textColor = black,
      spaceBefore = 0, spaceAfter = 0, alignment = TA_LEFT, leftIndent = 0,
      firstLineIndent = 0\<rparr>"

definition example_generator :: "yaml \<Rightarrow> generator" where
  "example_generator d =
     (ResumeGenerator_init (\<lambda>s f z. real (length s) * z / 2)
        \<lparr>Normal = example_style, Heading1 = example_style, Heading2 = example_style\<rparr>
        ''resume_data.yaml'' ''Generated_Resume.pdf'')\<lparr>data := d\<rparr>"

definition example_record :: yaml where
  "example_record =
     YMap [(YStr ''projects'', YList [YMap [(YStr ''name'', YStr ''Solver'')]]),
           (YStr ''skills'', YList [YStr ''Python'', YStr ''Go'', YStr ''SQL'']),
           (YStr ''experience'',
              YList [YMap [(YStr ''company'', YStr ''Acme''), (YStr ''title'', YStr ''Engineer''),
                           (YStr ''responsibilities'', YList [YStr ''Built things''])]]),
           (YStr ''certifications'', YList [YStr ''CKA'']),
           (YStr ''education'',
              YList [YMap [(YStr ''institution'', YStr ''MIT''), (YStr ''duration'', YStr ''2010'')]]),
           (YStr ''personal'',
              YMap [(YStr ''name'', YStr ''Jane Doe''), (YStr ''email'', YStr ''jane@x.com'')])]"

text \<open>The strings joined by a separator.\<close>

fun join_str :: "string \<Rightarrow> string list \<Rightarrow> string" where
  "join_str sep [] = []"
| "join_str sep [s] = s"
| "join_str sep (s # t # ts) = s @ sep @ join_str sep (t # ts)"

text \<open>The values of the contact fields a mapping has, in the order of the renderer.\<close>

definition contact_values :: "(yaml \<times> yaml) list \<Rightarrow> yaml list" where
  "contact_values p =
     concat (map (\<lambda>k. case map_of p (YStr k) of None \<Rightarrow> [] | Some v \<Rightarrow> [v])
       [''email'', ''phone'', ''location'', ''linkedin'', ''github'', ''website''])"




text \<open>The record of the scenario: only \<open>personal\<close>, with a name and an email.\<close>

definition only_personal :: "string \<Rightarrow> string \<Rightarrow> yaml" where
  "only_personal n e =
     YMap [(YStr ''personal'', YMap [(YStr ''name'', YStr n), (YStr ''email'', YStr e)])]"

definition example_personal :: "(yaml \<times> yaml) list" where
  "example_personal =
     [(YStr ''name'', YStr ''Jane Doe''), (YStr ''linkedin'', YStr ''in/jane''),
      (YStr ''email'', YStr ''jane@x.com'')]"


text \<open>More closed instances, and the parts of \<open>main\<close> that have no name of their own in the source.\<close>

definition example_line :: TwoColumnLine where
  "example_line = TwoColumnLine_init (YStr ''Acme'') (YStr ''Berlin'') bold12 plain11"

definition default_generator :: "env \<Rightarrow> generator" where
  "default_generator e =
     ResumeGenerator_init (stringWidth e) (getSampleStyleSheet e)
       ''resume_data.yaml'' ''Generated_Resume.pdf''"

definition template_for :: "string \<Rightarrow> doc_template" where
  "template_for f =
     \<lparr>filename = f, page = letter, rightMargin = 0.3 * inch, leftMargin = 0.3 * inch,
      topMargin = 0.2 * inch, bottomMargin = 0.2 * inch\<rparr>"

definition env_missing :: env where
  "env_missing =
     \<lparr>path_exists = (\<lambda>p. False), safe_load = (\<lambda>p. Inl (LibraryError ''unreadable'')),
      doc_build = (\<lambda>d s. None), stringWidth = (\<lambda>s f z. real (length s) * z / 2),
      getSampleStyleSheet =
        \<lparr>Normal = example_style, Heading1 = example_style, Heading2 = example_style\<rparr>\<rparr>"

definition env_ok :: env where
  "env_ok = env_missing\<lparr>path_exists := (\<lambda>p. True),
      safe_load := (\<lambda>p. Inr (only_personal ''Jane Doe'' ''jane@x.com''))\<rparr>"

text \<open>
  Two generators look the same to a renderer: same styles, and the same answers to
  \<open>key in self.data\<close> and \<open>self.data[key]\<close>. A regular action ends the same way and
  appends the same blocks on generators that look the same, whatever the stories it
  starts from, and leaves the generator as it is.
\<close>

definition view_eq :: "generator \<Rightarrow> generator \<Rightarrow> bool" where
  "view_eq g g' =
     (styles g = styles g' \<and> (\<forall>k. py_in k (data g) = py_in k (data g')) \<and>
      (\<forall>k. py_getitem (data g) k = py_getitem (data g') k))"

definition regular :: "'a action \<Rightarrow> bool" where
  "regular m =
     (\<forall>g g' story story'. view_eq g g' \<longrightarrow>
        (\<exists>r bs. m (g, story) = (r, g, story @ bs) \<and> m (g', story') = (r, g', story' @ bs)))"

text \<open>The blocks a renderer appends to an empty story.\<close>

definition blocks_of :: "unit action \<Rightarrow> generator \<Rightarrow> block list" where
  "blocks_of m g = snd (snd (m (g, [])))"

fun run_all :: "unit action list \<Rightarrow> unit action" where
  "run_all [] = ret ()"
| "run_all (m # ms) = seq m (run_all ms)"

definition renderers :: "unit action list" where
  "renderers =
     [create_personal_section, create_experience_section, create_education_section,
      create_skills_section, create_certifications_section, create_projects_section]"

definition skills_first :: "(yaml \<times> yaml) list" where
  "skills_first =
     [(YStr ''skills'', YList [YStr ''Go'']),
      (YStr ''personal'', YMap [(YStr ''name'', YStr ''Jane'')])]"
text \<open>
  \<open>a + b\<close> on floats, for the sum \<open>right_x + measured_right_width\<close> as Python
  evaluates it.
\<close>

definition fadd :: "double \<Rightarrow> double \<Rightarrow> double" where
  "fadd a b =
     (let e = min (exponent a) (exponent b)
      in round_to_double (aligned a e + aligned b e) e)"

text \<open>
  The doubles nearest to 156.4 and to 28.116, a \<open>stringWidth\<close> that measures every text
  as 28.116 points, and one that measures every text as 33 points.
\<close>

definition width_156_4 :: double where
  "width_156_4 = Double 5502835794693325 (- 45)"

definition width_28_116 :: double where
  "width_28_116 = Double 1978487611299201 (- 46)"

definition every_text_28_116 :: "yaml \<Rightarrow> style_value \<Rightarrow> style_value \<Rightarrow> double" where
  "every_text_28_116 t f z = width_28_116"

definition every_text_33 :: "yaml \<Rightarrow> style_value \<Rightarrow> style_value \<Rightarrow> double" where
  "every_text_33 t f z = Double 33 0"

text \<open>
  Two records: a phone number written without quotes, which YAML loads as an integer,
  and a name without any contact field.
\<close>

definition int_phone :: yaml where
  "int_phone =
     YMap [(YStr ''personal'',
            YMap [(YStr ''name'', YStr ''Jane Doe''), (YStr ''phone'', YInt 5551234567)])]"

definition only_name :: yaml where
  "only_name = YMap [(YStr ''personal'', YMap [(YStr ''name'', YStr ''Jane Doe'')])]"

subsection \<open>Rules for \<open>emits\<close>\<close>

lemma emitsI:
  "(\<And>g story. \<exists>r bs. m (g, story) = (r, g, story @ bs) \<and> list_all (P (styles g)) bs) \<Longrightarrow> emits P m"
  by (simp add: emits_def)

lemma emitsD:
  "emits P m \<Longrightarrow> \<exists>r bs. m (g, story) = (r, g, story @ bs) \<and> list_all (P (styles g)) bs"
  by (simp add: emits_def)

lemma emits_ret: "emits P (ret x)"
  by (simp add: emits_def ret_def)

lemma emits_expr: "emits P (expr r)"
  by (simp add: emits_def expr_def)

lemma emits_self_data: "emits P self_data"
  by (simp add: emits_def self_data_def)

lemma emits_self_style: "emits P (self_style f)"
  by (simp add: emits_def self_style_def)

lemma emits_append: "(\<And>st. P st b) \<Longrightarrow> emits P (append b)"
  by (simp add: emits_def append_def)

lemma emits_bnd:
  assumes m: "emits P m" and f: "\<And>x. emits P (f x)"
  shows "emits P (bnd m f)"
proof (rule emitsI)
  fix g story
  from emitsD [OF m, of g story] obtain r bs
    where 1: "m (g, story) = (r, g, story @ bs)" and 2: "list_all (P (styles g)) bs"
    by blast
  show "\<exists>r bs. bnd m f (g, story) = (r, g, story @ bs) \<and> list_all (P (styles g)) bs"
  proof (cases r)
    case (Inl e)
    with 1 2 show ?thesis by (auto simp: bnd_def)
  next
    case (Inr x)
    from emitsD [OF f, of x g "story @ bs"] obtain r' bs'
      where 3: "f x (g, story @ bs) = (r', g, (story @ bs) @ bs')"
        and 4: "list_all (P (styles g)) bs'"
      by blast
    from 1 Inr 3 have "bnd m f (g, story) = (r', g, story @ (bs @ bs'))"
      by (simp add: bnd_def)
    moreover from 2 4 have "list_all (P (styles g)) (bs @ bs')" by simp
    ultimately show ?thesis by blast
  qed
qed

lemma emits_seq: "emits P m \<Longrightarrow> emits P n \<Longrightarrow> emits P (seq m n)"
  by (simp add: seq_def emits_bnd)

lemma emits_if: "emits P m \<Longrightarrow> emits P n \<Longrightarrow> emits P (if c then m else n)"
  by simp

lemma emits_for_each: "(\<And>x. emits P (body x)) \<Longrightarrow> emits P (for_each body xs)"
  by (induction xs) (simp_all add: emits_ret emits_seq)

lemmas emits_intros =
  emits_ret emits_expr emits_self_data emits_self_style emits_bnd emits_seq emits_if
  emits_for_each

lemma emits_self_has: "emits P (self_has k)"
  unfolding self_has_def by (intro emits_intros)

lemma emits_self_item: "emits P (self_item k)"
  unfolding self_item_def by (intro emits_intros)

lemma emits_absent_or_empty: "emits P (absent_or_empty k)"
  unfolding absent_or_empty_def by (intro emits_intros emits_self_has emits_self_item)


lemma emits_add_section_separator:
  "(\<And>st. P st (HRFlowable ''100%'' 0.5 black)) \<Longrightarrow> (\<And>st. P st (Spacer 1 (0.08 * inch))) \<Longrightarrow>
     emits P add_section_separator"
  unfolding add_section_separator_def by (intro emits_intros emits_append)

lemma emits_section_header:
  "(\<And>st. P st (Paragraph (Raw (YStr title)) (SectionHeader st))) \<Longrightarrow> emits P (section_header title)"
  unfolding section_header_def emits_def
  by (simp add: bnd_def self_style_def append_def)

lemma emits_paragraph:
  "(\<And>st. P st (Paragraph t (f st))) \<Longrightarrow>
     emits P (bnd (self_style f) (\<lambda>st. append (Paragraph t st)))"
  unfolding emits_def by (simp add: bnd_def self_style_def append_def)

lemma emits_paired_line:
  "(\<And>st l r. P st (TwoColumn (TwoColumnLine_init l r ls rs))) \<Longrightarrow> (\<And>st. P st (Spacer 1 gap)) \<Longrightarrow>
     emits P (paired_line entry a b ls rs gap)"
  unfolding paired_line_def by (intro emits_intros emits_append)

lemma emits_project_field:
  "(\<And>st v. P st (Paragraph (mk v) (f st))) \<Longrightarrow> emits P (project_field project key mk f)"
  unfolding project_field_def by (intro emits_intros emits_paragraph)

subsection \<open>The renderers only append\<close>

lemma frame_personal: "emits any_block create_personal_section"
  unfolding create_personal_section_def
  by (intro emits_intros emits_self_has emits_self_item emits_append emits_paragraph)
     (simp_all add: any_block_def)

lemma frame_experience: "emits any_block create_experience_section"
  unfolding create_experience_section_def experience_entry_def bullet_line_def
  by (intro emits_intros emits_absent_or_empty emits_self_item emits_append emits_paragraph
        emits_section_header emits_add_section_separator emits_paired_line)
     (simp_all add: any_block_def)

lemma frame_education: "emits any_block create_education_section"
  unfolding create_education_section_def education_entry_def
  by (intro emits_intros emits_absent_or_empty emits_self_item emits_append emits_paragraph
        emits_section_header emits_add_section_separator emits_paired_line)
     (simp_all add: any_block_def)

lemma frame_skills: "emits any_block create_skills_section"
  unfolding create_skills_section_def
  by (intro emits_intros emits_absent_or_empty emits_self_item emits_append emits_paragraph
        emits_section_header emits_add_section_separator)
     (simp_all add: any_block_def)

lemma frame_certifications: "emits any_block create_certifications_section"
  unfolding create_certifications_section_def cert_line_def
  by (intro emits_intros emits_absent_or_empty emits_self_item emits_append emits_paragraph
        emits_section_header emits_add_section_separator)
     (simp_all add: any_block_def)

lemma frame_projects: "emits any_block create_projects_section"
  unfolding create_projects_section_def project_entry_def
  by (intro emits_intros emits_absent_or_empty emits_self_item emits_append
        emits_section_header emits_project_field)
     (simp_all add: any_block_def)

lemma frame_only_appends:
  "emits any_block m \<Longrightarrow> \<exists>bs. snd (m (g, story)) = (g, story @ bs)"
  by (drule emitsD [of _ _ g story]) auto

text \<open>
  C10. Every section renderer, on every generator and every story, returning or raising,
  leaves the generator (and with it the loaded record \<open>data\<close>) as it was and the story
  it was given as a prefix of the story it leaves: the blocks already there keep their
  order and positions, and blocks are only appended after them.
\<close>

theorem renderers_only_append:
  "(\<exists>bs. snd (create_personal_section (g, story)) = (g, story @ bs)) \<and>
   (\<exists>bs. snd (create_experience_section (g, story)) = (g, story @ bs)) \<and>
   (\<exists>bs. snd (create_education_section (g, story)) = (g, story @ bs)) \<and>
   (\<exists>bs. snd (create_skills_section (g, story)) = (g, story @ bs)) \<and>
   (\<exists>bs. snd (create_certifications_section (g, story)) = (g, story @ bs)) \<and>
   (\<exists>bs. snd (create_projects_section (g, story)) = (g, story @ bs))"
  by (intro conjI frame_only_appends frame_personal frame_experience frame_education
        frame_skills frame_certifications frame_projects)

subsection \<open>Guards\<close>

lemmas run_defs =
  bnd_def seq_def ret_def expr_def self_data_def self_style_def append_def self_has_def
  self_item_def absent_or_empty_def section_header_def add_section_separator_def

lemma guard_skips:
  "absent_or_empty_key key (data g) \<Longrightarrow> absent_or_empty key (g, story) = (Inr True, g, story)"
  by (auto simp: absent_or_empty_key_def run_defs split: sum.splits bool.splits)

lemma guard_passes:
  "nonempty_key key (data g) \<Longrightarrow> absent_or_empty key (g, story) = (Inr False, g, story)"
  by (auto simp: nonempty_key_def run_defs split: sum.splits bool.splits)

lemma guarded_sections_append_nothing:
  "absent_or_empty_key ''experience'' (data g) \<Longrightarrow>
     create_experience_section (g, story) = (Inr (), g, story)"
  "absent_or_empty_key ''education'' (data g) \<Longrightarrow>
     create_education_section (g, story) = (Inr (), g, story)"
  "absent_or_empty_key ''skills'' (data g) \<Longrightarrow>
     create_skills_section (g, story) = (Inr (), g, story)"
  "absent_or_empty_key ''certifications'' (data g) \<Longrightarrow>
     create_certifications_section (g, story) = (Inr (), g, story)"
  "absent_or_empty_key ''projects'' (data g) \<Longrightarrow>
     create_projects_section (g, story) = (Inr (), g, story)"
  by (simp_all add: create_experience_section_def create_education_section_def
        create_skills_section_def create_certifications_section_def
        create_projects_section_def bnd_def ret_def guard_skips)

lemma personal_absent_appends_nothing:
  "py_in ''personal'' (data g) = Inr False \<Longrightarrow>
     create_personal_section (g, story) = (Inr (), g, story)"
  by (simp add: create_personal_section_def run_defs)

text \<open>
  C1. The five renderers whose guard is \<open>key not in self.data or not self.data[key]\<close>
  append nothing when the key is absent or its value empty
  (\<open>guarded_sections_append_nothing\<close>), and \<open>create_personal_section\<close> appends
  nothing when \<open>personal\<close> is absent (\<open>personal_absent_appends_nothing\<close>). Its guard
  is \<open>"personal" not in self.data\<close> alone: for the record \<open>{"personal": {}}\<close>, whose
  \<open>personal\<close> value is empty, it appends one block, the spacer that ends the section.
\<close>

theorem personal_empty_appends_spacer:
  "create_personal_section (g\<lparr>data := YMap [(YStr ''personal'', YMap [])]\<rparr>, story) =
     (Inr (), g\<lparr>data := YMap [(YStr ''personal'', YMap [])]\<rparr>, story @ [Spacer 1 (0.03 * inch)])"
  by (simp add: create_personal_section_def run_defs collect_contact_info_def add_contact_def
        sbind_def)

subsection \<open>Section headers and separators\<close>

lemma header_then:
  assumes "emits P m"
  shows "\<exists>r rest. seq (section_header title) m (g, story) =
           (r, g, story @ Paragraph (Raw (YStr title)) (SectionHeader (styles g)) # rest) \<and>
           list_all (P (styles g)) rest"
proof -
  let ?h = "Paragraph (Raw (YStr title)) (SectionHeader (styles g))"
  from emitsD [OF assms, of g "story @ [?h]"] obtain r bs
    where "m (g, story @ [?h]) = (r, g, (story @ [?h]) @ bs)" and "list_all (P (styles g)) bs"
    by blast
  then show ?thesis by (auto simp: run_defs)
qed

lemma header_separator_then:
  assumes "emits P m"
  shows "\<exists>r rest. seq (section_header title) (seq add_section_separator m) (g, story) =
           (r, g, story @ Paragraph (Raw (YStr title)) (SectionHeader (styles g)) #
                   HRFlowable ''100%'' 0.5 black # Spacer 1 (0.08 * inch) # rest) \<and>
           list_all (P (styles g)) rest"
proof -
  let ?h = "[Paragraph (Raw (YStr title)) (SectionHeader (styles g)),
             HRFlowable ''100%'' 0.5 black, Spacer 1 (0.08 * inch)]"
  from emitsD [OF assms, of g "story @ ?h"] obtain r bs
    where "m (g, story @ ?h) = (r, g, (story @ ?h) @ bs)" and "list_all (P (styles g)) bs"
    by blast
  then show ?thesis by (auto simp: run_defs)
qed

lemma emits_project_entries:
  "emits project_block (bnd (self_item ''projects'') (\<lambda>projects.
     bnd (expr (py_iter projects)) (for_each project_entry)))"
  unfolding project_entry_def
  by (intro emits_intros emits_self_item emits_append emits_project_field) simp_all

lemma projects_blocks:
  assumes "nonempty_key ''projects'' (data g)"
  shows "\<exists>r rest. create_projects_section (g, story) =
           (r, g, story @ Paragraph (Raw (YStr ''PROJECTS'')) (SectionHeader (styles g)) # rest) \<and>
           list_all (project_block (styles g)) rest"
  using header_then [OF emits_project_entries, of "''PROJECTS''" g story]
  by (simp add: create_projects_section_def bnd_def [of "absent_or_empty _"]
        guard_passes [OF assms])

lemma emits_experience_entries:
  "emits any_block (bnd (self_item ''experience'') (\<lambda>entries.
     bnd (expr (py_iter entries)) (for_each experience_entry)))"
  unfolding experience_entry_def bullet_line_def
  by (intro emits_intros emits_self_item emits_append emits_paragraph emits_paired_line)
     (simp_all add: any_block_def)

lemma emits_education_entries:
  "emits any_block (bnd (self_item ''education'') (\<lambda>entries.
     bnd (expr (py_iter entries)) (for_each education_entry)))"
  unfolding education_entry_def
  by (intro emits_intros emits_self_item emits_append emits_paragraph emits_paired_line)
     (simp_all add: any_block_def)

lemma emits_skills_body:
  "emits any_block (bnd (self_item ''skills'') (\<lambda>skills.
       bnd (expr (sbind (py_iter skills) (py_join '', ''))) (\<lambda>skills_text.
       seq (bnd (self_style Description) (\<lambda>st. append (Paragraph (Raw (YStr skills_text)) st)))
           (append (Spacer 1 (0.1 * inch))))))"
  by (intro emits_intros emits_self_item emits_append emits_paragraph)
     (simp_all add: any_block_def)

lemma emits_certification_entries:
  "emits any_block (bnd (self_item ''certifications'') (\<lambda>certs.
       bnd (expr (py_iter certs)) (for_each cert_line)))"
  unfolding cert_line_def
  by (intro emits_intros emits_self_item emits_append emits_paragraph)
     (simp_all add: any_block_def)

lemma separated_blocks:
  "nonempty_key ''experience'' (data g) \<Longrightarrow>
     \<exists>r rest. create_experience_section (g, story) =
       (r, g, story @ Paragraph (Raw (YStr ''PROFESSIONAL EXPERIENCE'')) (SectionHeader (styles g)) #
               HRFlowable ''100%'' 0.5 black # Spacer 1 (0.08 * inch) # rest)"
  "nonempty_key ''education'' (data g) \<Longrightarrow>
     \<exists>r rest. create_education_section (g, story) =
       (r, g, story @ Paragraph (Raw (YStr ''EDUCATION'')) (SectionHeader (styles g)) #
               HRFlowable ''100%'' 0.5 black # Spacer 1 (0.08 * inch) # rest)"
  "nonempty_key ''skills'' (data g) \<Longrightarrow>
     \<exists>r rest. create_skills_section (g, story) =
       (r, g, story @ Paragraph (Raw (YStr ''TECHNICAL SKILLS'')) (SectionHeader (styles g)) #
               HRFlowable ''100%'' 0.5 black # Spacer 1 (0.08 * inch) # rest)"
  "nonempty_key ''certifications'' (data g) \<Longrightarrow>
     \<exists>r rest. create_certifications_section (g, story) =
       (r, g, story @ Paragraph (Raw (YStr ''CERTIFICATIONS'')) (SectionHeader (styles g)) #
               HRFlowable ''100%'' 0.5 black # Spacer 1 (0.08 * inch) # rest)"
  using header_separator_then [OF emits_experience_entries, of "''PROFESSIONAL EXPERIENCE''" g story]
        header_separator_then [OF emits_education_entries, of "''EDUCATION''" g story]
        header_separator_then [OF emits_skills_body, of "''TECHNICAL SKILLS''" g story]
        header_separator_then [OF emits_certification_entries, of "''CERTIFICATIONS''" g story]
  by (auto simp: create_experience_section_def create_education_section_def
        create_skills_section_def create_certifications_section_def
        bnd_def [of "absent_or_empty _"] guard_passes)

lemma project_block_not_separator:
  "project_block st b \<Longrightarrow> \<not> is_HR b \<and> b \<noteq> Spacer 1 (0.08 * inch)"
  by (cases b) (auto simp: inch_def)

text \<open>
  C9. When the guard of the section lets it through (the key is there and its value is
  not empty), \<open>create_projects_section\<close> appends the header \<open>PROJECTS\<close> and after it
  only blocks of the project entries: no horizontal rule and no spacer of the
  separator's height anywhere. The renderers of Experience, Education, Skills and
  Certifications append their header, then the horizontal rule and the spacer of
  \<open>add_section_separator\<close>, then the rest.
\<close>

theorem projects_header_has_no_separator:
  "(nonempty_key ''projects'' (data g) \<longrightarrow>
      (\<exists>r rest. create_projects_section (g, story) =
         (r, g, story @ Paragraph (Raw (YStr ''PROJECTS'')) (SectionHeader (styles g)) # rest) \<and>
         list_all (\<lambda>b. \<not> is_HR b \<and> b \<noteq> Spacer 1 (0.08 * inch)) rest)) \<and>
   (nonempty_key ''experience'' (data g) \<longrightarrow>
      (\<exists>r rest. create_experience_section (g, story) =
         (r, g, story @
            Paragraph (Raw (YStr ''PROFESSIONAL EXPERIENCE'')) (SectionHeader (styles g)) #
            HRFlowable ''100%'' 0.5 black # Spacer 1 (0.08 * inch) # rest))) \<and>
   (nonempty_key ''education'' (data g) \<longrightarrow>
      (\<exists>r rest. create_education_section (g, story) =
         (r, g, story @ Paragraph (Raw (YStr ''EDUCATION'')) (SectionHeader (styles g)) #
            HRFlowable ''100%'' 0.5 black # Spacer 1 (0.08 * inch) # rest))) \<and>
   (nonempty_key ''skills'' (data g) \<longrightarrow>
      (\<exists>r rest. create_skills_section (g, story) =
         (r, g, story @ Paragraph (Raw (YStr ''TECHNICAL SKILLS'')) (SectionHeader (styles g)) #
            HRFlowable ''100%'' 0.5 black # Spacer 1 (0.08 * inch) # rest))) \<and>
   (nonempty_key ''certifications'' (data g) \<longrightarrow>
      (\<exists>r rest. create_certifications_section (g, story) =
         (r, g, story @ Paragraph (Raw (YStr ''CERTIFICATIONS'')) (SectionHeader (styles g)) #
            HRFlowable ''100%'' 0.5 black # Spacer 1 (0.08 * inch) # rest)))"
proof (intro conjI impI)
  assume "nonempty_key ''projects'' (data g)"
  from projects_blocks [OF this, of story] obtain r rest
    where 1: "create_projects_section (g, story) =
                (r, g, story @ Paragraph (Raw (YStr ''PROJECTS'')) (SectionHeader (styles g)) # rest)"
      and 2: "list_all (project_block (styles g)) rest"
    by blast
  from 2 have "list_all (\<lambda>b. \<not> is_HR b \<and> b \<noteq> Spacer 1 (0.08 * inch)) rest"
    by (rule list.pred_mono_strong) (rule project_block_not_separator)
  with 1 show "\<exists>r rest. create_projects_section (g, story) =
         (r, g, story @ Paragraph (Raw (YStr ''PROJECTS'')) (SectionHeader (styles g)) # rest) \<and>
         list_all (\<lambda>b. \<not> is_HR b \<and> b \<noteq> Spacer 1 (0.08 * inch)) rest"
    by blast
qed (erule separated_blocks)+

lemma example_nonempty:
  "nonempty_key ''projects'' (data (example_generator example_record))"
  "nonempty_key ''experience'' (data (example_generator example_record))"
  "nonempty_key ''education'' (data (example_generator example_record))"
  "nonempty_key ''skills'' (data (example_generator example_record))"
  "nonempty_key ''certifications'' (data (example_generator example_record))"
  by (simp_all add: example_generator_def example_record_def nonempty_key_def)

theorem projects_header_has_no_separator_witness:
  "nonempty_key ''projects'' (data (example_generator example_record)) \<and>
   nonempty_key ''experience'' (data (example_generator example_record)) \<and>
   nonempty_key ''education'' (data (example_generator example_record)) \<and>
   nonempty_key ''skills'' (data (example_generator example_record)) \<and>
   nonempty_key ''certifications'' (data (example_generator example_record)) \<and>
   (\<exists>r rest. create_projects_section (example_generator example_record, []) =
      (r, example_generator example_record,
       Paragraph (Raw (YStr ''PROJECTS'')) (SectionHeader (styles (example_generator example_record))) # rest) \<and>
      list_all (\<lambda>b. \<not> is_HR b \<and> b \<noteq> Spacer 1 (0.08 * inch)) rest) \<and>
   (\<exists>r rest. create_experience_section (example_generator example_record, []) =
      (r, example_generator example_record,
       Paragraph (Raw (YStr ''PROFESSIONAL EXPERIENCE''))
         (SectionHeader (styles (example_generator example_record))) #
       HRFlowable ''100%'' 0.5 black # Spacer 1 (0.08 * inch) # rest))"
  using projects_header_has_no_separator [of "example_generator example_record" "[]"]
    example_nonempty
  by simp

subsection \<open>Entries that are mappings\<close>

lemma py_in_YMap: "py_in k (YMap kvs) = Inr (map_of kvs (YStr k) \<noteq> None)"
  by (simp add: map_of_eq_None_iff)





lemma line_if_Nil:
  "map_of kvs (YStr a) = None \<or> map_of kvs (YStr b) = None \<Longrightarrow> line_if kvs a b ls rs gap = []"
  by (auto simp: line_if_def split: option.splits)

subsection \<open>Personal information and skills\<close>

lemma py_join_strings: "py_join sep (map YStr ss) = Inr (join_str sep ss)"
  by (induction sep ss rule: join_str.induct) (simp_all add: sbind_def)

lemma add_contact_YMap:
  "add_contact (YMap p) k acc =
     Inr (acc @ (case map_of p (YStr k) of None \<Rightarrow> [] | Some v \<Rightarrow> [v]))"
  by (auto simp: add_contact_def sbind_def py_in_YMap simp del: py_in.simps
        split: option.splits)

lemma collect_contact_info_YMap: "collect_contact_info (YMap p) = Inr (contact_values p)"
  by (simp add: collect_contact_info_def add_contact_YMap sbind_def contact_values_def)

lemma self_has_run: "self_has k (g, story) = (py_in k (data g), g, story)"
  by (simp add: run_defs split: sum.splits)

lemma self_item_run: "self_item k (g, story) = (py_getitem (data g) k, g, story)"
  by (simp add: run_defs split: sum.splits)

lemma personal_blocks:
  assumes d: "data g = YMap kvs"
    and p: "map_of kvs (YStr ''personal'') = Some (YMap p)"
    and c: "contact_values p = map YStr ss"
  shows "create_personal_section (g, story) =
     (Inr (), g,
      story @
      (case map_of p (YStr ''name'') of None \<Rightarrow> []
       | Some v \<Rightarrow> [Paragraph (Raw v) (Name (styles g))]) @
      (if ss = [] then []
       else [Paragraph (Raw (YStr (join_str ('' '' @ bullet_glyph @ '' '') ss)))
               (Contact (styles g))]) @
      [Spacer 1 (0.03 * inch)])"
proof -
  have 1: "py_in ''personal'' (data g) = Inr True"
    using d p by (simp add: py_in_YMap del: py_in.simps)
  have 2: "py_getitem (data g) ''personal'' = Inr (YMap p)"
    using d p by simp
  show ?thesis
    unfolding create_personal_section_def
    apply (subst bnd_def, simp only: self_has_run 1 prod.case sum.case)
    apply (simp only: not_True_eq_False if_False)
    apply (subst bnd_def, simp only: self_item_run 2 prod.case sum.case)
    apply (simp add: seq_def bnd_def expr_def ret_def self_style_def append_def
        collect_contact_info_YMap c py_join_strings py_in_YMap
        del: py_in.simps split: option.splits)
    done
qed

lemma skills_blocks:
  assumes d: "data g = YMap kvs"
    and s: "map_of kvs (YStr ''skills'') = Some (YList (map YStr (x # xs)))"
  shows "create_skills_section (g, story) =
     (Inr (), g,
      story @
      [Paragraph (Raw (YStr ''TECHNICAL SKILLS'')) (SectionHeader (styles g)),
       HRFlowable ''100%'' 0.5 black, Spacer 1 (0.08 * inch),
       Paragraph (Raw (YStr (join_str '', '' (x # xs)))) (Description (styles g)),
       Spacer 1 (0.1 * inch)])"
proof -
  have 1: "nonempty_key ''skills'' (data g)"
    using d s by (simp add: nonempty_key_def py_in_YMap del: py_in.simps)
  have 2: "py_getitem (data g) ''skills'' = Inr (YList (map YStr (x # xs)))"
    using d s by simp
  have 3: "py_join '', '' (YStr x # map YStr xs) = Inr (join_str '', '' (x # xs))"
    using py_join_strings [of "'', ''" "x # xs"] by simp
  show ?thesis
    unfolding create_skills_section_def
    apply (subst bnd_def, simp only: guard_passes [OF 1] prod.case sum.case if_False)
    apply (simp add: seq_def bnd_def self_item_run 2 section_header_def
        add_section_separator_def expr_def sbind_def 3 self_style_def append_def
        del: py_join.simps)
    done
qed








lemma build_story_only_personal:
  "build_story (g\<lparr>data := only_personal n e\<rparr>, []) =
     (Inr (), g\<lparr>data := only_personal n e\<rparr>,
      [Paragraph (Raw (YStr n)) (Name (styles g)),
       Paragraph (Raw (YStr e)) (Contact (styles g)),
       Spacer 1 (0.03 * inch)])"
proof -
  let ?g = "g\<lparr>data := only_personal n e\<rparr>"
  have 1: "create_personal_section (?g, []) =
     (Inr (), ?g,
      [Paragraph (Raw (YStr n)) (Name (styles g)),
       Paragraph (Raw (YStr e)) (Contact (styles g)),
       Spacer 1 (0.03 * inch)])"
    using personal_blocks
      [of ?g "[(YStr ''personal'', YMap [(YStr ''name'', YStr n), (YStr ''email'', YStr e)])]"
          "[(YStr ''name'', YStr n), (YStr ''email'', YStr e)]" "[e]" "[]"]
    by (simp add: only_personal_def contact_values_def)
  have 2: "absent_or_empty_key ''experience'' (data ?g)"
    "absent_or_empty_key ''education'' (data ?g)"
    "absent_or_empty_key ''skills'' (data ?g)"
    "absent_or_empty_key ''certifications'' (data ?g)"
    "absent_or_empty_key ''projects'' (data ?g)"
    by (simp_all add: only_personal_def absent_or_empty_key_def)
  show ?thesis
    unfolding build_story_def
    by (simp only: seq_def bnd_def 1 guarded_sections_append_nothing(1) [OF 2(1)]
          guarded_sections_append_nothing(2) [OF 2(2)]
          guarded_sections_append_nothing(3) [OF 2(3)]
          guarded_sections_append_nothing(4) [OF 2(4)]
          guarded_sections_append_nothing(5) [OF 2(5)] prod.case sum.case)
qed

text \<open>
  C5, as amended. The claim fails for a contact field that is not a string, where
  \<open>join\<close> raises and neither contact line nor spacer is appended, and its one contact
  line is none when no contact field is there (both are evaluated after the closed
  instance below). What holds: for a record whose
  \<open>personal\<close> value is a mapping with strings in its contact fields,
  \<open>create_personal_section\<close> appends: the name, if the key \<open>name\<close> is there, as
  one paragraph in the style \<open>Name\<close>; then, if at least one of \<open>email\<close>, \<open>phone\<close>,
  \<open>location\<close>, \<open>linkedin\<close>, \<open>github\<close>, \<open>website\<close> is there, one paragraph in the
  style \<open>Contact\<close> whose text is the values present, in that order, joined by the
  glyph U+2022 with a space on each side (no such paragraph when none is there); then a
  spacer. Both styles are centred. A record with only a name and an email in
  \<open>personal\<close> makes the whole story the name paragraph, the contact paragraph with the
  email alone, and the spacer: no section header.
\<close>

theorem personal_heading_and_contact_line:
  "(data g = YMap kvs \<and> map_of kvs (YStr ''personal'') = Some (YMap p) \<and>
    contact_values p = map YStr ss \<longrightarrow>
      create_personal_section (g, story) =
        (Inr (), g,
         story @
         (case map_of p (YStr ''name'') of None \<Rightarrow> []
          | Some v \<Rightarrow> [Paragraph (Raw v) (Name (styles g))]) @
         (if ss = [] then []
          else [Paragraph (Raw (YStr (join_str ('' '' @ bullet_glyph @ '' '') ss)))
                  (Contact (styles g))]) @
         [Spacer 1 (0.03 * inch)])) \<and>
   alignment (Name (setup_custom_styles sw sample)) = TA_CENTER \<and>
   alignment (Contact (setup_custom_styles sw sample)) = TA_CENTER \<and>
   build_story (g\<lparr>data := only_personal n e\<rparr>, []) =
     (Inr (), g\<lparr>data := only_personal n e\<rparr>,
      [Paragraph (Raw (YStr n)) (Name (styles g)),
       Paragraph (Raw (YStr e)) (Contact (styles g)),
       Spacer 1 (0.03 * inch)])"
proof (intro conjI impI)
  assume "data g = YMap kvs \<and> map_of kvs (YStr ''personal'') = Some (YMap p) \<and>
    contact_values p = map YStr ss"
  then show "create_personal_section (g, story) =
        (Inr (), g,
         story @
         (case map_of p (YStr ''name'') of None \<Rightarrow> []
          | Some v \<Rightarrow> [Paragraph (Raw v) (Name (styles g))]) @
         (if ss = [] then []
          else [Paragraph (Raw (YStr (join_str ('' '' @ bullet_glyph @ '' '') ss)))
                  (Contact (styles g))]) @
         [Spacer 1 (0.03 * inch)])"
    using personal_blocks [of g kvs p ss story] by blast
next
  show "build_story (g\<lparr>data := only_personal n e\<rparr>, []) =
     (Inr (), g\<lparr>data := only_personal n e\<rparr>,
      [Paragraph (Raw (YStr n)) (Name (styles g)),
       Paragraph (Raw (YStr e)) (Contact (styles g)),
       Spacer 1 (0.03 * inch)])"
    by (rule build_story_only_personal)
qed (simp_all add: setup_custom_styles_def Let_def)

theorem personal_heading_and_contact_line_witness:
  "data (example_generator (YMap [(YStr ''personal'', YMap example_personal)])) =
     YMap [(YStr ''personal'', YMap example_personal)] \<and>
   map_of [(YStr ''personal'', YMap example_personal)] (YStr ''personal'') =
     Some (YMap example_personal) \<and>
   contact_values example_personal = map YStr [''jane@x.com'', ''in/jane''] \<and>
   create_personal_section
     (example_generator (YMap [(YStr ''personal'', YMap example_personal)]), []) =
     (Inr (), example_generator (YMap [(YStr ''personal'', YMap example_personal)]),
      [Paragraph (Raw (YStr ''Jane Doe''))
         (Name (styles (example_generator (YMap [(YStr ''personal'', YMap example_personal)])))),
       Paragraph (Raw (YStr (''jane@x.com '' @ bullet_glyph @ '' in/jane'')))
         (Contact (styles (example_generator (YMap [(YStr ''personal'', YMap example_personal)])))),
       Spacer 1 (0.03 * inch)])"
  using personal_heading_and_contact_line
    [of "example_generator (YMap [(YStr ''personal'', YMap example_personal)])"
        "[(YStr ''personal'', YMap example_personal)]" example_personal
        "[''jane@x.com'', ''in/jane'']" "[]"]
  by (simp add: example_generator_def example_personal_def contact_values_def)

theorem personal_contact_line_counterexample:
  "create_personal_section (example_generator int_phone, []) =
     (Inl TypeError, example_generator int_phone,
      [Paragraph (Raw (YStr ''Jane Doe'')) (Name (styles (example_generator int_phone)))]) \<and>
   create_personal_section (example_generator only_name, []) =
     (Inr (), example_generator only_name,
      [Paragraph (Raw (YStr ''Jane Doe'')) (Name (styles (example_generator only_name))),
       Spacer 1 (0.03 * inch)])"
  by (simp add: create_personal_section_def run_defs collect_contact_info_def add_contact_def
        sbind_def int_phone_def only_name_def example_generator_def)

text \<open>
  C7. For a record whose \<open>skills\<close> value is a non-empty list of strings, the skills
  section is the header, the separator, one paragraph in the style \<open>Description\<close>
  whose text is the strings joined in order by a comma and a space, and a spacer; the
  list Python, Go, SQL gives the text \<open>Python, Go, SQL\<close>.
\<close>

theorem skills_render_as_one_joined_line:
  "(data g = YMap kvs \<and> map_of kvs (YStr ''skills'') = Some (YList (map YStr (x # xs))) \<longrightarrow>
      create_skills_section (g, story) =
        (Inr (), g,
         story @
         [Paragraph (Raw (YStr ''TECHNICAL SKILLS'')) (SectionHeader (styles g)),
          HRFlowable ''100%'' 0.5 black, Spacer 1 (0.08 * inch),
          Paragraph (Raw (YStr (join_str '', '' (x # xs)))) (Description (styles g)),
          Spacer 1 (0.1 * inch)])) \<and>
   create_skills_section
     (g\<lparr>data := YMap [(YStr ''skills'', YList [YStr ''Python'', YStr ''Go'', YStr ''SQL''])]\<rparr>,
      story) =
     (Inr (),
      g\<lparr>data := YMap [(YStr ''skills'', YList [YStr ''Python'', YStr ''Go'', YStr ''SQL''])]\<rparr>,
      story @
      [Paragraph (Raw (YStr ''TECHNICAL SKILLS'')) (SectionHeader (styles g)),
       HRFlowable ''100%'' 0.5 black, Spacer 1 (0.08 * inch),
       Paragraph (Raw (YStr ''Python, Go, SQL'')) (Description (styles g)),
       Spacer 1 (0.1 * inch)])"
proof (intro conjI impI)
  assume "data g = YMap kvs \<and> map_of kvs (YStr ''skills'') = Some (YList (map YStr (x # xs)))"
  then show "create_skills_section (g, story) =
        (Inr (), g,
         story @
         [Paragraph (Raw (YStr ''TECHNICAL SKILLS'')) (SectionHeader (styles g)),
          HRFlowable ''100%'' 0.5 black, Spacer 1 (0.08 * inch),
          Paragraph (Raw (YStr (join_str '', '' (x # xs)))) (Description (styles g)),
          Spacer 1 (0.1 * inch)])"
    using skills_blocks [of g kvs x xs story] by blast
next
  show "create_skills_section
     (g\<lparr>data := YMap [(YStr ''skills'', YList [YStr ''Python'', YStr ''Go'', YStr ''SQL''])]\<rparr>,
      story) =
     (Inr (),
      g\<lparr>data := YMap [(YStr ''skills'', YList [YStr ''Python'', YStr ''Go'', YStr ''SQL''])]\<rparr>,
      story @
      [Paragraph (Raw (YStr ''TECHNICAL SKILLS'')) (SectionHeader (styles g)),
       HRFlowable ''100%'' 0.5 black, Spacer 1 (0.08 * inch),
       Paragraph (Raw (YStr ''Python, Go, SQL'')) (Description (styles g)),
       Spacer 1 (0.1 * inch)])"
    using skills_blocks
      [of "g\<lparr>data := YMap [(YStr ''skills'', YList [YStr ''Python'', YStr ''Go'', YStr ''SQL''])]\<rparr>"
          "[(YStr ''skills'', YList [YStr ''Python'', YStr ''Go'', YStr ''SQL''])]"
          "''Python''" "[''Go'', ''SQL'']" story]
    by simp
qed

theorem skills_render_as_one_joined_line_witness:
  "data (example_generator (YMap [(YStr ''skills'', YList [YStr ''Rust'', YStr ''C''])])) =
     YMap [(YStr ''skills'', YList [YStr ''Rust'', YStr ''C''])] \<and>
   map_of [(YStr ''skills'', YList [YStr ''Rust'', YStr ''C''])] (YStr ''skills'') =
     Some (YList (map YStr [''Rust'', ''C''])) \<and>
   create_skills_section
     (example_generator (YMap [(YStr ''skills'', YList [YStr ''Rust'', YStr ''C''])]), []) =
     (Inr (), example_generator (YMap [(YStr ''skills'', YList [YStr ''Rust'', YStr ''C''])]),
      [Paragraph (Raw (YStr ''TECHNICAL SKILLS''))
         (SectionHeader
            (styles (example_generator (YMap [(YStr ''skills'', YList [YStr ''Rust'', YStr ''C''])])))),
       HRFlowable ''100%'' 0.5 black, Spacer 1 (0.08 * inch),
       Paragraph (Raw (YStr ''Rust, C''))
         (Description
            (styles (example_generator (YMap [(YStr ''skills'', YList [YStr ''Rust'', YStr ''C''])])))),
       Spacer 1 (0.1 * inch)])"
  using skills_render_as_one_joined_line
    [of "example_generator (YMap [(YStr ''skills'', YList [YStr ''Rust'', YStr ''C''])])"
        "[(YStr ''skills'', YList [YStr ''Rust'', YStr ''C''])]" "''Rust''" "[''C'']" "[]"]
  by (simp add: example_generator_def)

subsection \<open>The two-column line\<close>

lemma bit_length_bounds:
  "0 < k \<Longrightarrow> 2 ^ (bit_length k - 1) \<le> k \<and> k < 2 ^ bit_length k"
proof (induction k rule: bit_length.induct)
  case (1 k)
  show ?case
  proof (cases "k = 1")
    case True
    then show ?thesis by (simp add: bit_length.simps)
  next
    case False
    with "1.prems" have d: "0 < k div 2" by simp
    with "1.IH" "1.prems"
    have ih: "2 ^ (bit_length (k div 2) - 1) \<le> k div 2" "k div 2 < 2 ^ bit_length (k div 2)"
      by simp_all
    from d have p: "0 < bit_length (k div 2)"
      by (simp add: bit_length.simps [of "k div 2"])
    have b: "bit_length k = Suc (bit_length (k div 2))"
      using "1.prems" by (simp add: bit_length.simps [of k])
    from p have e: "(2::int) ^ bit_length (k div 2) = 2 * 2 ^ (bit_length (k div 2) - 1)"
      by (cases "bit_length (k div 2)") simp_all
    from ih e show ?thesis
      unfolding b by (simp only: diff_Suc_1 power_Suc) linarith
  qed
qed

lemma round_to_double_exact:
  "bit_length \<bar>m\<bar> \<le> 53 \<Longrightarrow> value_of (round_to_double m e) = of_int m * 2 powi e"
  by (simp add: round_to_double_def value_of_def)

lemma rounding_step:
  fixes a q r h :: int
  assumes a: "a = q * (2 * h) + r" and r: "0 \<le> r" "r < 2 * h"
  shows "\<bar>(if h < r \<or> (r = h \<and> odd q) then q + 1 else q) * (2 * h) - a\<bar> \<le> h"
  using assms by (auto simp: algebra_simps)

lemma round_to_double_error:
  "\<bar>value_of (round_to_double m e) - of_int m * 2 powi e\<bar> \<le> \<bar>of_int m * 2 powi e\<bar> / 2 ^ 53"
proof (cases "bit_length \<bar>m\<bar> \<le> 53")
  case True
  then show ?thesis by (simp add: round_to_double_exact)
next
  case False
  define s where "s = bit_length \<bar>m\<bar> - 53"
  define h :: int where "h = 2 ^ (s - 1)"
  define q where "q = \<bar>m\<bar> div 2 ^ s"
  define r where "r = \<bar>m\<bar> mod 2 ^ s"
  define q' where "q' = (if h < r \<or> (r = h \<and> odd q) then q + 1 else q)"
  from False have s: "0 < s" by (simp add: s_def)
  then have p: "(2::int) ^ s = 2 * h"
    by (cases s) (simp_all add: h_def)
  from False have m: "0 < \<bar>m\<bar>"
    by (cases "m = 0") (simp_all add: bit_length.simps [of 0])
  have "\<bar>m\<bar> = q * 2 ^ s + r"
    unfolding q_def r_def by (rule div_mult_mod_eq [symmetric])
  moreover have "0 \<le> r" "r < 2 ^ s"
    by (simp_all add: r_def)
  ultimately have "\<bar>m\<bar> = q * 2 ^ s + r" "0 \<le> r" "r < 2 ^ s"
    by blast+
  then have "\<bar>m\<bar> = q * (2 * h) + r" "0 \<le> r" "r < 2 * h"
    by (simp_all only: p)
  then have "\<bar>q' * (2 * h) - \<bar>m\<bar>\<bar> \<le> h"
    unfolding q'_def by (rule rounding_step)
  moreover have "sgn m * q' * 2 ^ s - m = sgn m * (q' * (2 * h) - \<bar>m\<bar>)"
    by (simp add: p algebra_simps abs_sgn mult_sgn_abs)
  ultimately have 1: "\<bar>sgn m * q' * 2 ^ s - m\<bar> \<le> h"
    using m by (simp add: abs_mult)
  from bit_length_bounds [OF m] have "2 ^ (bit_length \<bar>m\<bar> - 1) \<le> \<bar>m\<bar>" by simp
  moreover from False have "bit_length \<bar>m\<bar> - 1 = (s - 1) + 53"
    by (simp add: s_def)
  ultimately have 2: "h * 2 ^ 53 \<le> \<bar>m\<bar>"
    by (simp add: h_def power_add)
  have "round_to_double m e = Double (sgn m * q') (e + int s)"
    using False by (simp add: round_to_double_def Let_def q'_def q_def r_def h_def s_def)
  moreover have "(2::real) powi (e + int s) = 2 powi e * 2 powi int s"
    by (rule power_int_add) simp
  ultimately have v: "value_of (round_to_double m e) = of_int (sgn m * q' * 2 ^ s) * 2 powi e"
    by (simp add: value_of_def)
  have "\<bar>value_of (round_to_double m e) - of_int m * 2 powi e\<bar> =
          \<bar>of_int (sgn m * q' * 2 ^ s - m)\<bar> * 2 powi e"
    unfolding v by (simp add: abs_mult left_diff_distrib [symmetric] del: of_int_mult)
  also have "\<dots> \<le> of_int h * 2 powi e"
  proof (intro mult_right_mono)
    from 1 have "(of_int \<bar>sgn m * q' * 2 ^ s - m\<bar> :: real) \<le> of_int h"
      by (simp only: of_int_le_iff)
    then show "\<bar>of_int (sgn m * q' * 2 ^ s - m) :: real\<bar> \<le> of_int h"
      by (simp only: of_int_abs)
  qed simp
  also have "\<dots> \<le> (of_int \<bar>m\<bar> / 2 ^ 53) * 2 powi e"
  proof (intro mult_right_mono)
    from 2 have "(of_int (h * 2 ^ 53) :: real) \<le> of_int \<bar>m\<bar>"
      by (simp only: of_int_le_iff)
    then show "(of_int h :: real) \<le> of_int \<bar>m\<bar> / 2 ^ 53"
      by (simp add: field_simps)
  qed simp
  also have "\<dots> = \<bar>of_int m * 2 powi e\<bar> / 2 ^ 53"
    by (simp add: abs_mult)
  finally show ?thesis .
qed

lemma value_of_aligned:
  assumes "e \<le> exponent d"
  shows "of_int (aligned d e) * 2 powi e = value_of d"
proof -
  from assms have "(2::real) powi exponent d = 2 powi (int (nat (exponent d - e)) + e)"
    by simp
  also have "\<dots> = 2 powi int (nat (exponent d - e)) * 2 powi e"
    by (rule power_int_add) simp
  also have "\<dots> = 2 ^ nat (exponent d - e) * 2 powi e"
    by (simp only: power_int_of_nat)
  finally show ?thesis
    by (simp add: aligned_def value_of_def)
qed

lemma fsub_exact_difference:
  "of_int (aligned a (min (exponent a) (exponent b)) -
           aligned b (min (exponent a) (exponent b))) *
     2 powi min (exponent a) (exponent b) = value_of a - value_of b"
  by (simp add: left_diff_distrib value_of_aligned)

lemma fsub_error:
  "\<bar>value_of (fsub a b) - (value_of a - value_of b)\<bar> \<le> \<bar>value_of a - value_of b\<bar> / 2 ^ 53"
  using round_to_double_error
    [of "aligned a (min (exponent a) (exponent b)) - aligned b (min (exponent a) (exponent b))"
        "min (exponent a) (exponent b)"]
  by (simp only: fsub_def Let_def fsub_exact_difference)

lemma fsub_exact:
  "bit_length \<bar>aligned a (min (exponent a) (exponent b)) -
               aligned b (min (exponent a) (exponent b))\<bar> \<le> 53 \<Longrightarrow>
     value_of (fsub a b) = value_of a - value_of b"
  using round_to_double_exact
    [of "aligned a (min (exponent a) (exponent b)) - aligned b (min (exponent a) (exponent b))"
        "min (exponent a) (exponent b)"]
  by (simp only: fsub_def Let_def fsub_exact_difference)

lemma fsub_156_4_28_116: "fsub width_156_4 width_28_116 = Double 4513591989043724 (- 45)"
  by code_simp

lemma fadd_back: "fadd (Double 4513591989043724 (- 45)) width_28_116 = Double 5502835794693324 (- 45)"
  by code_simp

lemma fsub_590_33: "fsub (Double 590 0) (Double 33 0) = Double 557 0"
  by code_simp

lemma bit_length_557: "bit_length \<bar>aligned (Double 590 0) 0 - aligned (Double 33 0) 0\<bar> \<le> 53"
  by code_simp

lemma draw_after_wrap:
  assumes "style_getitem (left_style l) ''fontName'' = Inr lf"
    and "style_getitem (left_style l) ''fontSize'' = Inr lz"
    and "style_getitem (right_style l) ''fontName'' = Inr rf"
    and "style_getitem (right_style l) ''fontSize'' = Inr rz"
  shows "draw sw (fst (wrap l W H)) =
       (Inr (),
        [setFont lf lz,
         setFillColor (style_get (left_style l) ''textColor'' (SColor black)),
         drawString (PyInt 0) (PyInt 0) (left_text l),
         setFont rf rz,
         setFillColor (style_get (right_style l) ''textColor'' (SColor black)),
         drawString (PyFloat (fsub W (sw (right_text l) rf rz))) (PyInt 0) (right_text l)])"
  using assms by (simp add: wrap_def draw_def)

lemma example_line_styles:
  "style_getitem (left_style example_line) ''fontName'' = Inr (SName ''Helvetica-Bold'')"
  "style_getitem (left_style example_line) ''fontSize'' = Inr (SSize 12)"
  "style_getitem (right_style example_line) ''fontName'' = Inr (SName ''Helvetica'')"
  "style_getitem (right_style example_line) ''fontSize'' = Inr (SSize 11)"
  by (simp_all add: example_line_def TwoColumnLine_init_def bold12_def plain11_def
        style_getitem_def)

text \<open>
  C4, as amended. The claim's \<open>right_x + measured_right_width = W\<close>, exactly and for
  every width, fails, because \<open>W - measured_right_width\<close> is a subtraction of floats
  (evaluated after the closed instance below for \<open>W = 156.4\<close> and texts 28.116 wide).
  What holds, for a line whose two style dicts have the keys \<open>fontName\<close> and
  \<open>fontSize\<close> (every line the renderers build has them) and for every width \<open>W\<close>
  given to \<open>wrap\<close>: \<open>wrap\<close> reports the size \<open>(W, 14)\<close>, and \<open>draw\<close> after it returns,
  having drawn the left text at \<open>x = 0\<close> and the right text at the float \<open>x = W - m\<close>,
  where \<open>m\<close> is the width of the right text measured in the right style's font and
  size. So \<open>x + m\<close> is \<open>W\<close> up to the rounding of that one subtraction: it differs
  from \<open>W\<close> by at most \<open>|W - m| / 2^53\<close>, and it is \<open>W\<close> exactly whenever the
  difference needs no rounding (its mantissa has at most 53 bits). The width is the
  one of the latest \<open>wrap\<close>: an earlier \<open>wrap\<close> leaves no trace, and a line that was
  never wrapped has no width, so \<open>draw\<close> raises.
\<close>

theorem right_text_is_flush_right:
  assumes "style_getitem (left_style l) ''fontName'' = Inr lf"
    and "style_getitem (left_style l) ''fontSize'' = Inr lz"
    and "style_getitem (right_style l) ''fontName'' = Inr rf"
    and "style_getitem (right_style l) ''fontSize'' = Inr rz"
  shows "snd (wrap l W H) = (W, 14) \<and>
     draw sw (fst (wrap l W H)) =
       (Inr (),
        [setFont lf lz,
         setFillColor (style_get (left_style l) ''textColor'' (SColor black)),
         drawString (PyInt 0) (PyInt 0) (left_text l),
         setFont rf rz,
         setFillColor (style_get (right_style l) ''textColor'' (SColor black)),
         drawString (PyFloat (fsub W (sw (right_text l) rf rz))) (PyInt 0) (right_text l)]) \<and>
     \<bar>value_of (fsub W (sw (right_text l) rf rz)) + value_of (sw (right_text l) rf rz) -
        value_of W\<bar> \<le>
       \<bar>value_of W - value_of (sw (right_text l) rf rz)\<bar> / 2 ^ 53 \<and>
     (bit_length
        \<bar>aligned W (min (exponent W) (exponent (sw (right_text l) rf rz))) -
         aligned (sw (right_text l) rf rz)
           (min (exponent W) (exponent (sw (right_text l) rf rz)))\<bar> \<le> 53 \<longrightarrow>
        value_of (fsub W (sw (right_text l) rf rz)) + value_of (sw (right_text l) rf rz) =
          value_of W) \<and>
     draw sw (fst (wrap (fst (wrap l W0 H0)) W H)) = draw sw (fst (wrap l W H)) \<and>
     fst (draw sw (l\<lparr>width := None\<rparr>)) = Inl (AttributeError ''width'')"
proof (intro conjI impI)
  show "snd (wrap l W H) = (W, 14)"
    by (simp add: wrap_def)
  show "draw sw (fst (wrap l W H)) =
       (Inr (),
        [setFont lf lz,
         setFillColor (style_get (left_style l) ''textColor'' (SColor black)),
         drawString (PyInt 0) (PyInt 0) (left_text l),
         setFont rf rz,
         setFillColor (style_get (right_style l) ''textColor'' (SColor black)),
         drawString (PyFloat (fsub W (sw (right_text l) rf rz))) (PyInt 0) (right_text l)])"
    using assms by (rule draw_after_wrap)
  show "\<bar>value_of (fsub W (sw (right_text l) rf rz)) + value_of (sw (right_text l) rf rz) -
        value_of W\<bar> \<le>
       \<bar>value_of W - value_of (sw (right_text l) rf rz)\<bar> / 2 ^ 53"
    using fsub_error [of W "sw (right_text l) rf rz"] by (simp add: algebra_simps)
  show "draw sw (fst (wrap (fst (wrap l W0 H0)) W H)) = draw sw (fst (wrap l W H))"
    by (simp add: wrap_def draw_def)
  show "fst (draw sw (l\<lparr>width := None\<rparr>)) = Inl (AttributeError ''width'')"
    using assms by (simp add: draw_def)
next
  assume "bit_length
        \<bar>aligned W (min (exponent W) (exponent (sw (right_text l) rf rz))) -
         aligned (sw (right_text l) rf rz)
           (min (exponent W) (exponent (sw (right_text l) rf rz)))\<bar> \<le> 53"
  from fsub_exact [OF this]
  show "value_of (fsub W (sw (right_text l) rf rz)) + value_of (sw (right_text l) rf rz) =
          value_of W"
    by simp
qed

theorem right_text_is_flush_right_witness:
  "style_getitem (left_style example_line) ''fontName'' = Inr (SName ''Helvetica-Bold'') \<and>
   style_getitem (left_style example_line) ''fontSize'' = Inr (SSize 12) \<and>
   style_getitem (right_style example_line) ''fontName'' = Inr (SName ''Helvetica'') \<and>
   style_getitem (right_style example_line) ''fontSize'' = Inr (SSize 11) \<and>
   bit_length \<bar>aligned (Double 590 0) 0 - aligned (Double 33 0) 0\<bar> \<le> 53 \<and>
   snd (wrap example_line (Double 590 0) (Double 700 0)) = (Double 590 0, 14) \<and>
   draw every_text_33 (fst (wrap example_line (Double 590 0) (Double 700 0))) =
     (Inr (),
      [setFont (SName ''Helvetica-Bold'') (SSize 12), setFillColor (SColor black),
       drawString (PyInt 0) (PyInt 0) (YStr ''Acme''),
       setFont (SName ''Helvetica'') (SSize 11), setFillColor (SColor black),
       drawString (PyFloat (Double 557 0)) (PyInt 0) (YStr ''Berlin'')]) \<and>
   value_of (Double 557 0) + value_of (Double 33 0) = value_of (Double 590 0)"
  using right_text_is_flush_right
          [OF example_line_styles, of "Double 590 0" "Double 700 0" every_text_33
             "Double 0 0" "Double 0 0"]
    example_line_styles bit_length_557
  by (simp add: every_text_33_def fsub_590_33 example_line_def TwoColumnLine_init_def
        bold12_def plain11_def style_get_def)

theorem right_text_is_flush_right_counterexample:
  "value_of (every_text_28_116 (YStr ''Acme'') (SName ''Helvetica-Bold'') (SSize 12)) +
   value_of (every_text_28_116 (YStr ''Berlin'') (SName ''Helvetica'') (SSize 11)) \<le>
     value_of width_156_4 \<and>
   draw every_text_28_116 (fst (wrap example_line width_156_4 (Double 14 0))) =
     (Inr (),
      [setFont (SName ''Helvetica-Bold'') (SSize 12), setFillColor (SColor black),
       drawString (PyInt 0) (PyInt 0) (YStr ''Acme''),
       setFont (SName ''Helvetica'') (SSize 11), setFillColor (SColor black),
       drawString (PyFloat (Double 4513591989043724 (- 45))) (PyInt 0) (YStr ''Berlin'')]) \<and>
   value_of (Double 4513591989043724 (- 45)) +
   value_of (every_text_28_116 (YStr ''Berlin'') (SName ''Helvetica'') (SSize 11)) \<noteq>
     value_of width_156_4 \<and>
   value_of (fadd (Double 4513591989043724 (- 45))
               (every_text_28_116 (YStr ''Berlin'') (SName ''Helvetica'') (SSize 11))) \<noteq>
     value_of width_156_4"
proof (intro conjI)
  show "draw every_text_28_116 (fst (wrap example_line width_156_4 (Double 14 0))) =
     (Inr (),
      [setFont (SName ''Helvetica-Bold'') (SSize 12), setFillColor (SColor black),
       drawString (PyInt 0) (PyInt 0) (YStr ''Acme''),
       setFont (SName ''Helvetica'') (SSize 11), setFillColor (SColor black),
       drawString (PyFloat (Double 4513591989043724 (- 45))) (PyInt 0) (YStr ''Berlin'')])"
    using draw_after_wrap [OF example_line_styles, of every_text_28_116 width_156_4 "Double 14 0"]
    by (simp add: every_text_28_116_def fsub_156_4_28_116 example_line_def
          TwoColumnLine_init_def bold12_def plain11_def style_get_def)
  show "value_of (fadd (Double 4513591989043724 (- 45))
               (every_text_28_116 (YStr ''Berlin'') (SName ''Helvetica'') (SSize 11))) \<noteq>
     value_of width_156_4"
    by (simp add: every_text_28_116_def fadd_back width_156_4_def value_of_def)
qed (simp_all add: every_text_28_116_def width_156_4_def width_28_116_def
       value_of_def power_int_minus field_simps)

subsection \<open>\<open>main\<close>\<close>

lemma starts_with_append: "starts_with x (x @ b)"
  by (induction x) simp_all

lemma contains_prefix: "contains x (x @ b)"
proof (cases "x @ b")
  case Nil
  then show ?thesis by simp
next
  case (Cons c cs)
  have "starts_with x (x @ b)" by (rule starts_with_append)
  with Cons show ?thesis by simp
qed

lemma contains_append_left: "contains x s \<Longrightarrow> contains x (a @ s)"
  by (induction a) simp_all

lemma contains_middle: "contains x (a @ x @ b)"
  by (rule contains_append_left) (rule contains_prefix)

lemma main_missing:
  assumes "\<not> path_exists e ''resume_data.yaml''"
  shows "main e =
     (1, [Print ''Parsing input data...'',
          PrintExc ''Error: '' (FileNotFoundError ''Input file resume_data.yaml not found!''),
          Print ''Please ensure resume_data.yaml exists with your resume data''])"
  using assms
  by (simp add: main_def parse_input_file_def ResumeGenerator_init_def handler_def)

lemma handler_code: "fst (handler x) = 1"
  by (simp add: handler_def split: error.splits)

lemma default_generator_files:
  "input_file (default_generator e) = ''resume_data.yaml''"
  "output_file (default_generator e) = ''Generated_Resume.pdf''"
  by (simp_all add: default_generator_def ResumeGenerator_init_def)

lemma main_unfold:
  "main e =
     (case parse_input_file e (default_generator e) of
        Inl x \<Rightarrow> (fst (handler x), [Print ''Parsing input data...''] @ snd (handler x))
      | Inr g1 \<Rightarrow>
          (case generate_pdf e g1 of
             (Inl x, t) \<Rightarrow>
               (fst (handler x),
                [Print ''Parsing input data...'', Print ''Generating PDF...''] @ t @
                snd (handler x))
           | (Inr g2, t) \<Rightarrow>
               (0, [Print ''Parsing input data...'', Print ''Generating PDF...''] @ t @
                   [Print ''Resume generation completed successfully!''])))"
  by (simp add: main_def default_generator_def Let_def split: sum.splits prod.splits)

lemma generate_pdf_code:
  assumes "build_story (self, []) = (r, g, story)"
  shows "(\<exists>g2. fst (generate_pdf e self) = Inr g2) =
           (r = Inr () \<and> doc_build e (template_for (output_file self)) story = None)"
  using assms
  by (cases r; cases "doc_build e (template_for (output_file self)) story")
     (simp_all add: generate_pdf_def template_for_def Let_def)

lemma main_code_after_parse:
  assumes "parse_input_file e (default_generator e) = Inr g1"
  shows "fst (main e) = (if (\<exists>g2. fst (generate_pdf e g1) = Inr g2) then 0 else 1)"
proof (cases "generate_pdf e g1")
  case (Pair r t)
  with assms show ?thesis
    by (cases r) (simp_all add: main_unfold handler_code)
qed

lemma main_code:
  "fst (main e) =
     (if path_exists e ''resume_data.yaml'' \<and>
         (\<exists>d g story.
            safe_load e ''resume_data.yaml'' = Inr d \<and>
            build_story ((default_generator e)\<lparr>data := d\<rparr>, []) = (Inr (), g, story) \<and>
            doc_build e (template_for ''Generated_Resume.pdf'') story = None)
      then 0 else 1)"
proof (cases "path_exists e ''resume_data.yaml''")
  case False
  then show ?thesis by (simp add: main_missing)
next
  case True
  show ?thesis
  proof (cases "safe_load e ''resume_data.yaml''")
    case (Inl x)
    with True have "parse_input_file e (default_generator e) = Inl x"
      by (simp add: parse_input_file_def default_generator_files sbind_def)
    with True Inl show ?thesis
      by (simp add: main_unfold handler_code)
  next
    case (Inr d)
    let ?g = "(default_generator e)\<lparr>data := d\<rparr>"
    obtain r g story where b: "build_story (?g, []) = (r, g, story)"
      by (cases "build_story (?g, [])") auto
    from True Inr have "parse_input_file e (default_generator e) = Inr ?g"
      by (simp add: parse_input_file_def default_generator_files sbind_def)
    from main_code_after_parse [OF this] generate_pdf_code [OF b, of e] True Inr b
    show ?thesis
      by (simp add: default_generator_files)
  qed
qed

text \<open>
  C6. \<open>main\<close> returns 0 exactly when the input file exists, loading it returns a
  record, the six renderers return on it, and \<open>doc.build\<close> returns on their story; in
  every other case it returns 1. When the input file does not exist, the run prints the
  line announcing the parse, then the exception of \<open>parse_input_file\<close>, whose message
  contains the generator's input file name, then the hint, and nothing else happens: the
  story is never built and \<open>doc.build\<close> is never called, so no output file is written.
  \<open>parse_input_file\<close> raises that exception for whatever input file name the generator
  was made with.
\<close>

theorem exit_codes:
  "fst (main e) =
     (if path_exists e ''resume_data.yaml'' \<and>
         (\<exists>d g story.
            safe_load e ''resume_data.yaml'' = Inr d \<and>
            build_story ((default_generator e)\<lparr>data := d\<rparr>, []) = (Inr (), g, story) \<and>
            doc_build e (template_for ''Generated_Resume.pdf'') story = None)
      then 0 else 1) \<and>
   (\<not> path_exists e ''resume_data.yaml'' \<longrightarrow>
      (\<exists>m. main e =
         (1, [Print ''Parsing input data...'',
              PrintExc ''Error: '' (FileNotFoundError m),
              Print ''Please ensure resume_data.yaml exists with your resume data'']) \<and>
         contains (input_file (default_generator e)) m)) \<and>
   (\<not> path_exists e (input_file self) \<longrightarrow>
      (\<exists>m. parse_input_file e self = Inl (FileNotFoundError m) \<and>
           contains (input_file self) m))"
proof (intro conjI impI)
  show "fst (main e) =
     (if path_exists e ''resume_data.yaml'' \<and>
         (\<exists>d g story.
            safe_load e ''resume_data.yaml'' = Inr d \<and>
            build_story ((default_generator e)\<lparr>data := d\<rparr>, []) = (Inr (), g, story) \<and>
            doc_build e (template_for ''Generated_Resume.pdf'') story = None)
      then 0 else 1)"
    by (rule main_code)
next
  assume "\<not> path_exists e ''resume_data.yaml''"
  from main_missing [OF this]
    contains_middle [of "''resume_data.yaml''" "''Input file ''" "'' not found!''"]
  show "\<exists>m. main e =
         (1, [Print ''Parsing input data...'',
              PrintExc ''Error: '' (FileNotFoundError m),
              Print ''Please ensure resume_data.yaml exists with your resume data'']) \<and>
         contains (input_file (default_generator e)) m"
    by (simp add: default_generator_def ResumeGenerator_init_def del: contains.simps)
next
  assume "\<not> path_exists e (input_file self)"
  then have "parse_input_file e self =
      Inl (FileNotFoundError (''Input file '' @ input_file self @ '' not found!''))"
    by (simp add: parse_input_file_def)
  with contains_middle [of "input_file self" "''Input file ''" "'' not found!''"]
  show "\<exists>m. parse_input_file e self = Inl (FileNotFoundError m) \<and>
           contains (input_file self) m"
    by blast
qed

theorem exit_codes_witness:
  "\<not> path_exists env_missing ''resume_data.yaml'' \<and>
   \<not> path_exists env_missing (input_file (default_generator env_missing)) \<and>
   (\<exists>m. main env_missing =
      (1, [Print ''Parsing input data...'',
           PrintExc ''Error: '' (FileNotFoundError m),
           Print ''Please ensure resume_data.yaml exists with your resume data'']) \<and>
      contains ''resume_data.yaml'' m) \<and>
   (\<exists>m. parse_input_file env_missing (default_generator env_missing) =
          Inl (FileNotFoundError m) \<and>
        contains ''resume_data.yaml'' m) \<and>
   fst (main env_missing) = 1 \<and>
   fst (main env_ok) = 0"
proof -
  have 1: "\<not> path_exists env_missing ''resume_data.yaml''"
    by (simp add: env_missing_def)
  have 2: "\<not> path_exists env_missing (input_file (default_generator env_missing))"
    by (simp add: env_missing_def)
  have 3: "path_exists env_ok ''resume_data.yaml''"
    "safe_load env_ok ''resume_data.yaml'' = Inr (only_personal ''Jane Doe'' ''jane@x.com'')"
    "doc_build env_ok = (\<lambda>d s. None)"
    by (simp_all add: env_ok_def env_missing_def)
  from exit_codes [of env_ok "default_generator env_ok"] 3
    build_story_only_personal
      [where g = "default_generator env_ok" and n = "''Jane Doe''" and e = "''jane@x.com''"]
  have 4: "fst (main env_ok) = 0"
    by simp
  from exit_codes [of env_missing "default_generator env_missing"] 1 2 4
  show ?thesis
    by (simp add: default_generator_files del: contains.simps)
qed

subsection \<open>The order of the sections\<close>

lemma regularI:
  "(\<And>g g' story story'. view_eq g g' \<Longrightarrow>
      \<exists>r bs. m (g, story) = (r, g, story @ bs) \<and> m (g', story') = (r, g', story' @ bs)) \<Longrightarrow>
   regular m"
  by (simp add: regular_def)

lemma regularD:
  "regular m \<Longrightarrow> view_eq g g' \<Longrightarrow>
     \<exists>r bs. m (g, story) = (r, g, story @ bs) \<and> m (g', story') = (r, g', story' @ bs)"
  by (simp add: regular_def)

lemma view_eq_refl: "view_eq g g"
  by (simp add: view_eq_def)

lemma regular_ret: "regular (ret x)"
  by (simp add: regular_def ret_def)

lemma regular_expr: "regular (expr r)"
  by (simp add: regular_def expr_def)

lemma regular_self_style: "regular (self_style f)"
  by (simp add: regular_def self_style_def view_eq_def)

lemma regular_append: "regular (append b)"
  by (simp add: regular_def append_def)

lemma regular_self_has: "regular (self_has k)"
  by (auto simp: regular_def view_eq_def run_defs split: sum.splits)

lemma regular_self_item: "regular (self_item k)"
  by (auto simp: regular_def view_eq_def run_defs split: sum.splits)

lemma regular_bnd:
  assumes m: "regular m" and f: "\<And>x. regular (f x)"
  shows "regular (bnd m f)"
proof (rule regularI)
  fix g g' story story'
  assume v: "view_eq g g'"
  from regularD [OF m v, of story story'] obtain r bs
    where 1: "m (g, story) = (r, g, story @ bs)" and 2: "m (g', story') = (r, g', story' @ bs)"
    by blast
  show "\<exists>r bs. bnd m f (g, story) = (r, g, story @ bs) \<and>
          bnd m f (g', story') = (r, g', story' @ bs)"
  proof (cases r)
    case (Inl e)
    with 1 2 show ?thesis by (auto simp: bnd_def)
  next
    case (Inr x)
    from regularD [OF f v, of x "story @ bs" "story' @ bs"] obtain r2 bs2
      where 3: "f x (g, story @ bs) = (r2, g, (story @ bs) @ bs2)"
        and 4: "f x (g', story' @ bs) = (r2, g', (story' @ bs) @ bs2)"
      by blast
    from 1 2 3 4 Inr
    have "bnd m f (g, story) = (r2, g, story @ (bs @ bs2))"
      and "bnd m f (g', story') = (r2, g', story' @ (bs @ bs2))"
      by (simp_all add: bnd_def)
    then show ?thesis by blast
  qed
qed

lemma regular_seq: "regular m \<Longrightarrow> regular n \<Longrightarrow> regular (seq m n)"
  by (simp add: seq_def regular_bnd)

lemma regular_if: "regular m \<Longrightarrow> regular n \<Longrightarrow> regular (if c then m else n)"
  by simp

lemma regular_for_each: "(\<And>x. regular (body x)) \<Longrightarrow> regular (for_each body xs)"
  by (induction xs) (simp_all add: regular_ret regular_seq)

lemmas regular_intros =
  regular_ret regular_expr regular_self_style regular_append regular_self_has
  regular_self_item regular_bnd regular_seq regular_if regular_for_each

lemma regular_renderers:
  "regular create_personal_section"
  "regular create_experience_section"
  "regular create_education_section"
  "regular create_skills_section"
  "regular create_certifications_section"
  "regular create_projects_section"
  unfolding create_personal_section_def create_experience_section_def
    create_education_section_def create_skills_section_def
    create_certifications_section_def create_projects_section_def
    experience_entry_def education_entry_def bullet_line_def cert_line_def
    project_entry_def project_field_def paired_line_def absent_or_empty_def
    section_header_def add_section_separator_def
  by (intro regular_intros)+

lemma regular_run_all: "(\<And>m. m \<in> set ms \<Longrightarrow> regular m) \<Longrightarrow> regular (run_all ms)"
  by (induction ms) (simp_all add: regular_ret regular_seq)

lemma seq_ret_unit: "seq m (ret ()) = m"
  by (auto simp: seq_def bnd_def ret_def fun_eq_iff split: prod.splits sum.splits)

lemma build_story_run_all: "build_story = run_all renderers"
  by (simp add: build_story_def renderers_def seq_ret_unit)

lemma regular_build_story: "regular build_story"
  unfolding build_story_run_all
  by (rule regular_run_all) (auto simp: renderers_def regular_renderers)

lemma regular_local:
  assumes "regular m"
  shows "m (g, story) = (fst (m (g, [])), g, story @ blocks_of m g)"
  using regularD [OF assms view_eq_refl, of g story "[]"]
  by (auto simp: blocks_of_def)

lemma run_all_prefix:
  assumes "\<And>m. m \<in> set ms \<Longrightarrow> regular m"
  shows "\<exists>n\<le>length ms.
           snd (snd (run_all ms (g, story))) =
             story @ concat (take n (map (\<lambda>m. blocks_of m g) ms)) \<and>
           fst (snd (run_all ms (g, story))) = g \<and>
           (fst (run_all ms (g, story)) = Inr () \<longrightarrow> n = length ms)"
  using assms
proof (induction ms arbitrary: story)
  case Nil
  then show ?case by (simp add: ret_def)
next
  case (Cons m ms)
  have m: "m (g, story) = (fst (m (g, [])), g, story @ blocks_of m g)"
    by (rule regular_local) (simp add: Cons.prems)
  show ?case
  proof (cases "fst (m (g, []))")
    case (Inl e)
    with m have "run_all (m # ms) (g, story) = (Inl e, g, story @ blocks_of m g)"
      by (simp add: seq_def bnd_def)
    then show ?thesis
      by (intro exI [of _ 1]) simp
  next
    case (Inr u)
    with m have r: "run_all (m # ms) (g, story) = run_all ms (g, story @ blocks_of m g)"
      by (simp add: seq_def bnd_def)
    from Cons.IH [of "story @ blocks_of m g"] Cons.prems obtain n
      where "n \<le> length ms"
        and "snd (snd (run_all ms (g, story @ blocks_of m g))) =
               (story @ blocks_of m g) @ concat (take n (map (\<lambda>m. blocks_of m g) ms))"
        and "fst (snd (run_all ms (g, story @ blocks_of m g))) = g"
        and "fst (run_all ms (g, story @ blocks_of m g)) = Inr () \<longrightarrow> n = length ms"
      by auto
    with r show ?thesis
      by (intro exI [of _ "Suc n"]) simp
  qed
qed

lemma view_eq_permuted:
  assumes "map_of kvs = map_of kvs'"
  shows "view_eq (g\<lparr>data := YMap kvs\<rparr>) (g\<lparr>data := YMap kvs'\<rparr>)"
  using assms by (simp add: view_eq_def py_in_YMap del: py_in.simps)

lemma build_story_skills_first:
  "build_story (example_generator (YMap skills_first), []) =
     (Inr (), example_generator (YMap skills_first),
      [Paragraph (Raw (YStr ''Jane'')) (Name (styles (example_generator YNull))),
       Spacer 1 (0.03 * inch),
       Paragraph (Raw (YStr ''TECHNICAL SKILLS'')) (SectionHeader (styles (example_generator YNull))),
       HRFlowable ''100%'' 0.5 black, Spacer 1 (0.08 * inch),
       Paragraph (Raw (YStr ''Go'')) (Description (styles (example_generator YNull))),
       Spacer 1 (0.1 * inch)])"
  by (simp add: build_story_def create_personal_section_def create_experience_section_def
        create_education_section_def create_skills_section_def
        create_certifications_section_def create_projects_section_def run_defs
        collect_contact_info_def add_contact_def sbind_def skills_first_def
        example_generator_def)

text \<open>
  C3. Two records with the same items, one a reordering of the other (keys distinct, as
  in every Python dict), make \<open>build_story\<close> end the same way with the same story. And
  for every generator the story is the blocks of the personal section, then those of
  the experience, education, skills, certifications and projects sections, each as the
  renderer appends them on its own: all six when \<open>build_story\<close> returns, and the first
  \<open>n\<close> of them, up to the one that raised, when it raises.
\<close>

theorem section_order_is_fixed:
  "(distinct (map fst kvs) \<and> distinct (map fst kvs') \<and> set kvs = set kvs' \<longrightarrow>
      fst (build_story (g\<lparr>data := YMap kvs\<rparr>, [])) =
        fst (build_story (g\<lparr>data := YMap kvs'\<rparr>, [])) \<and>
      snd (snd (build_story (g\<lparr>data := YMap kvs\<rparr>, []))) =
        snd (snd (build_story (g\<lparr>data := YMap kvs'\<rparr>, [])))) \<and>
   (\<exists>n\<le>6.
      snd (snd (build_story (g, []))) =
        concat (take n
          [blocks_of create_personal_section g, blocks_of create_experience_section g,
           blocks_of create_education_section g, blocks_of create_skills_section g,
           blocks_of create_certifications_section g, blocks_of create_projects_section g]) \<and>
      (fst (build_story (g, [])) = Inr () \<longrightarrow> n = 6))"
proof (intro conjI impI)
  assume "distinct (map fst kvs) \<and> distinct (map fst kvs') \<and> set kvs = set kvs'"
  then have "map_of kvs = map_of kvs'"
    by (simp add: map_of_inject_set)
  from regularD [OF regular_build_story view_eq_permuted [OF this], of g "[]" "[]"]
  show "fst (build_story (g\<lparr>data := YMap kvs\<rparr>, [])) =
        fst (build_story (g\<lparr>data := YMap kvs'\<rparr>, []))"
    and "snd (snd (build_story (g\<lparr>data := YMap kvs\<rparr>, []))) =
        snd (snd (build_story (g\<lparr>data := YMap kvs'\<rparr>, [])))"
    by auto
next
  have "\<And>m. m \<in> set renderers \<Longrightarrow> regular m"
    by (auto simp: renderers_def regular_renderers)
  from run_all_prefix [OF this, of renderers g "[]"] obtain n
    where n: "n \<le> length renderers"
      "snd (snd (run_all renderers (g, []))) =
         [] @ concat (take n (map (\<lambda>m. blocks_of m g) renderers))"
      "fst (run_all renderers (g, [])) = Inr () \<longrightarrow> n = length renderers"
    by blast
  have l: "length renderers = 6"
    by (simp add: renderers_def)
  have b: "map (\<lambda>m. blocks_of m g) renderers =
          [blocks_of create_personal_section g, blocks_of create_experience_section g,
           blocks_of create_education_section g, blocks_of create_skills_section g,
           blocks_of create_certifications_section g, blocks_of create_projects_section g]"
    by (simp add: renderers_def)
  from n show "\<exists>n\<le>6.
      snd (snd (build_story (g, []))) =
        concat (take n
          [blocks_of create_personal_section g, blocks_of create_experience_section g,
           blocks_of create_education_section g, blocks_of create_skills_section g,
           blocks_of create_certifications_section g, blocks_of create_projects_section g]) \<and>
      (fst (build_story (g, [])) = Inr () \<longrightarrow> n = 6)"
    unfolding build_story_run_all l b by (intro exI [of _ n]) simp
qed

theorem section_order_is_fixed_witness:
  "distinct (map fst skills_first) \<and> distinct (map fst (rev skills_first)) \<and>
   set skills_first = set (rev skills_first) \<and>
   fst (build_story (example_generator (YMap skills_first), [])) = Inr () \<and>
   snd (snd (build_story (example_generator (YMap (rev skills_first)), []))) =
     [Paragraph (Raw (YStr ''Jane'')) (Name (styles (example_generator YNull))),
      Spacer 1 (0.03 * inch),
      Paragraph (Raw (YStr ''TECHNICAL SKILLS'')) (SectionHeader (styles (example_generator YNull))),
      HRFlowable ''100%'' 0.5 black, Spacer 1 (0.08 * inch),
      Paragraph (Raw (YStr ''Go'')) (Description (styles (example_generator YNull))),
      Spacer 1 (0.1 * inch)] \<and>
   snd (snd (build_story (example_generator (YMap skills_first), []))) =
     concat
       [blocks_of create_personal_section (example_generator (YMap skills_first)),
        blocks_of create_experience_section (example_generator (YMap skills_first)),
        blocks_of create_education_section (example_generator (YMap skills_first)),
        blocks_of create_skills_section (example_generator (YMap skills_first)),
        blocks_of create_certifications_section (example_generator (YMap skills_first)),
        blocks_of create_projects_section (example_generator (YMap skills_first))]"
proof -
  have h1: "distinct (map fst skills_first)"
    by (simp add: skills_first_def)
  have h: "distinct (map fst skills_first) \<and> distinct (map fst (rev skills_first)) \<and>
      set skills_first = set (rev skills_first)"
    using h1 by (simp add: rev_map [symmetric])
  have g: "(example_generator (YMap skills_first))\<lparr>data := YMap (rev skills_first)\<rparr> =
        example_generator (YMap (rev skills_first))"
      "(example_generator (YMap skills_first))\<lparr>data := YMap skills_first\<rparr> =
        example_generator (YMap skills_first)"
    by (simp_all add: example_generator_def)
  from section_order_is_fixed
         [of skills_first "rev skills_first" "example_generator (YMap skills_first)"] h
  have 1: "snd (snd (build_story (example_generator (YMap skills_first), []))) =
           snd (snd (build_story (example_generator (YMap (rev skills_first)), [])))"
    by (simp only: g)
  from section_order_is_fixed
         [of skills_first "rev skills_first" "example_generator (YMap skills_first)"]
  obtain n where 2: "n \<le> 6"
      "snd (snd (build_story (example_generator (YMap skills_first), []))) =
        concat (take n
          [blocks_of create_personal_section (example_generator (YMap skills_first)),
           blocks_of create_experience_section (example_generator (YMap skills_first)),
           blocks_of create_education_section (example_generator (YMap skills_first)),
           blocks_of create_skills_section (example_generator (YMap skills_first)),
           blocks_of create_certifications_section (example_generator (YMap skills_first)),
           blocks_of create_projects_section (example_generator (YMap skills_first))])"
      "fst (build_story (example_generator (YMap skills_first), [])) = Inr () \<longrightarrow> n = 6"
    by blast
  have 3: "fst (build_story (example_generator (YMap skills_first), [])) = Inr ()"
    by (simp add: build_story_skills_first)
  with 2 have n: "n = 6" by blast
  from 1 have 4: "snd (snd (build_story (example_generator (YMap (rev skills_first)), []))) =
     [Paragraph (Raw (YStr ''Jane'')) (Name (styles (example_generator YNull))),
      Spacer 1 (0.03 * inch),
      Paragraph (Raw (YStr ''TECHNICAL SKILLS'')) (SectionHeader (styles (example_generator YNull))),
      HRFlowable ''100%'' 0.5 black, Spacer 1 (0.08 * inch),
      Paragraph (Raw (YStr ''Go'')) (Description (styles (example_generator YNull))),
      Spacer 1 (0.1 * inch)]"
    by (simp add: build_story_skills_first)
  from 2(2) have 5: "snd (snd (build_story (example_generator (YMap skills_first), []))) =
     concat
       [blocks_of create_personal_section (example_generator (YMap skills_first)),
        blocks_of create_experience_section (example_generator (YMap skills_first)),
        blocks_of create_education_section (example_generator (YMap skills_first)),
        blocks_of create_skills_section (example_generator (YMap skills_first)),
        blocks_of create_certifications_section (example_generator (YMap skills_first)),
        blocks_of create_projects_section (example_generator (YMap skills_first))]"
    unfolding n by (simp only: take_all length_Cons list.size)
  from h 3 4 5 show ?thesis by blast
qed

end
